theory Spec2Isabelle
  imports Complex_Main "HOL-Library.Countable"
begin

section \<open>ISL avatar animation: pose library, timeline builder, packaging, streaming\<close>

text \<open>
  A shallow embedding of \<^verbatim>\<open>backend/avatar_engine.py\<close> and \<^verbatim>\<open>backend/websocket_handler.py\<close>.

  Conventions of the model.
  \<^item> Seconds are Python floats in the source. The model computes with exact rationals, so a
    decimal literal such as \<^verbatim>\<open>0.3\<close> is the number \<open>3/10\<close> and sums carry no binary rounding.
  \<^item> Strings are byte strings; \<^verbatim>\<open>str.upper\<close> is ASCII upper-casing and \<^verbatim>\<open>str.split\<close> splits at
    ASCII white space.
  \<^item> A joint-position dictionary is a Python object. Dictionaries live in an explicit store and
    a key frame holds the address of its dictionary, so that sharing is visible.
  \<^item> An exception of the source is a value \<open>Inl e\<close> of the model.
  \<^item> What a function reads from its surroundings is a parameter: the readings of the clock,
    whether the transport delivers a message, and the functions of Python's library.
  \<^item> A coroutine runs from its call to its return; no other task runs at its \<^verbatim>\<open>await\<close>s.
\<close>

subsection \<open>Strings\<close>

text \<open>\<^verbatim>\<open>str.upper\<close>, on the letters a to z.\<close>

definition char_upper :: "char \<Rightarrow> char" where
  "char_upper c =
     (if 97 \<le> (of_char c :: nat) \<and> (of_char c :: nat) \<le> 122
      then char_of ((of_char c :: nat) - 32) else c)"

definition upper :: "string \<Rightarrow> string" where
  "upper s = map char_upper s"

subsection \<open>Data model\<close>

datatype error = KeyError | IndexError | TypeError | TransportError

type_synonym vec3 = "rat \<times> rat \<times> rat"

text \<open>A \<^verbatim>\<open>Dict[str, Tuple[float, float, float]]\<close>, in insertion order.\<close>

type_synonym joint_dict = "(string \<times> vec3) list"

text \<open>
  The store of joint-position dictionaries: the address of a dictionary is its index, and a
  new dictionary is appended.
\<close>

type_synonym addr = nat

type_synonym heap = "joint_dict list"

definition alloc :: "heap \<Rightarrow> joint_dict \<Rightarrow> addr \<times> heap" where
  "alloc h d = (length h, h @ [d])"

text \<open>\<^verbatim>\<open>d.copy()\<close>: a new dictionary with the items of the dictionary at \<open>a\<close>.\<close>

definition dict_copy :: "heap \<Rightarrow> addr \<Rightarrow> addr \<times> heap" where
  "dict_copy h a = alloc h (h ! a)"

record KeyFrame =
  timestamp :: rat
  joint_positions :: addr
  duration :: rat

record AvatarPose =
  name :: string
  keyframes :: "KeyFrame list"
  transition_duration :: rat

record ISLGlossMapper =
  pose_library :: "(string \<times> AvatarPose) list"
  transition_rules :: "(string \<times> (string \<times> rat) list) list"

subsection \<open>The pose library\<close>

text \<open>
  \<^verbatim>\<open>KeyFrame(t, {...}, d)\<close>: the dictionary display creates a new dictionary, whose address the
  key frame holds.
\<close>

definition new_keyframe :: "rat \<times> joint_dict \<times> rat \<Rightarrow> heap \<Rightarrow> KeyFrame \<times> heap" where
  "new_keyframe lit h =
     (case lit of (t, joints, d) \<Rightarrow>
        (let (a, h') = alloc h joints
         in (\<lparr>timestamp = t, joint_positions = a, duration = d\<rparr>, h')))"

fun new_keyframes :: "(rat \<times> joint_dict \<times> rat) list \<Rightarrow> heap \<Rightarrow> KeyFrame list \<times> heap" where
  "new_keyframes [] h = ([], h)"
| "new_keyframes (lit # lits) h =
     (let (k, h1) = new_keyframe lit h;
          (ks, h2) = new_keyframes lits h1
      in (k # ks, h2))"

text \<open>
  \<^verbatim>\<open>poses[nm] = AvatarPose(name=nm, keyframes=[...], transition_duration=td)\<close>, one pose
  after the other.
\<close>

fun new_poses ::
  "(string \<times> (rat \<times> joint_dict \<times> rat) list \<times> rat) list \<Rightarrow> heap \<Rightarrow>
   (string \<times> AvatarPose) list \<times> heap" where
  "new_poses [] h = ([], h)"
| "new_poses ((nm, lits, td) # rest) h =
     (let (ks, h1) = new_keyframes lits h;
          (ps, h2) = new_poses rest h1
      in ((nm, \<lparr>name = nm, keyframes = ks, transition_duration = td\<rparr>) # ps, h2))"

text \<open>
  The poses that \<^verbatim>\<open>_initialize_pose_library\<close> writes down: for each pose its name, its key
  frames (time stamp, joint positions, duration) and its transition duration.
\<close>

definition pose_table :: "(string \<times> (rat \<times> joint_dict \<times> rat) list \<times> rat) list" where
  "pose_table =
    [ (''HELLO'',
       [ (0, [(''right_hand'', (3/10, 8/10, 0)), (''right_wrist'', (35/100, 75/100, 0)),
              (''head'', (0, 0, 5/100))], 5/10),
         (5/10, [(''right_hand'', (4/10, 9/10, 1/10)), (''right_wrist'', (45/100, 85/100, 1/10)),
                 (''head'', (0, 0, - (5/100)))], 5/10),
         (1, [(''right_hand'', (3/10, 8/10, 0)), (''right_wrist'', (35/100, 75/100, 0)),
              (''head'', (0, 0, 0))], 3/10) ],
       2/10),
      (''HOW'',
       [ (0, [(''both_hands'', (0, 6/10, 0)), (''right_hand'', (2/10, 6/10, 0)),
              (''left_hand'', (- (2/10), 6/10, 0)), (''eyebrows'', (0, 1/10, 0))], 8/10),
         (8/10, [(''both_hands'', (0, 7/10, 1/10)), (''right_hand'', (25/100, 7/10, 1/10)),
                 (''left_hand'', (- (25/100), 7/10, 1/10)), (''eyebrows'', (0, 15/100, 0))],
          4/10) ],
       3/10),
      (''YOU'',
       [ (0, [(''right_hand'', (0, 7/10, 3/10)), (''right_index'', (0, 75/100, 35/100)),
              (''head'', (0, 0, 0)), (''eyes'', (0, 0, 1/10))], 6/10),
         (6/10, [(''right_hand'', (5/100, 7/10, 4/10)), (''right_index'', (5/100, 75/100, 45/100)),
                 (''head'', (0, 2/100, 0)), (''eyes'', (0, 0, 15/100))], 4/10) ],
       2/10),
      (''THANK-YOU'',
       [ (0, [(''right_hand'', (0, 9/10, 2/10)), (''right_palm'', (0, 95/100, 25/100)),
              (''head'', (0, - (1/10), 0))], 5/10),
         (5/10, [(''right_hand'', (0, 7/10, 4/10)), (''right_palm'', (0, 75/100, 45/100)),
                 (''head'', (0, - (15/100), 0))], 8/10),
         (13/10, [(''right_hand'', (0, 6/10, 2/10)), (''right_palm'', (0, 65/100, 25/100)),
                  (''head'', (0, 0, 0))], 4/10) ],
       3/10),
      (''YES'',
       [ (0, [(''head'', (0, 0, 0)), (''neck'', (0, 0, 0))], 2/10),
         (2/10, [(''head'', (0, - (2/10), 0)), (''neck'', (0, - (1/10), 0))], 3/10),
         (5/10, [(''head'', (0, 1/10, 0)), (''neck'', (0, 5/100, 0))], 3/10),
         (8/10, [(''head'', (0, 0, 0)), (''neck'', (0, 0, 0))], 2/10) ],
       1/10),
      (''NO'',
       [ (0, [(''head'', (0, 0, 0)), (''neck'', (0, 0, 0))], 1/10),
         (1/10, [(''head'', (- (15/100), 0, 0)), (''neck'', (- (1/10), 0, 0))], 3/10),
         (4/10, [(''head'', (15/100, 0, 0)), (''neck'', (1/10, 0, 0))], 3/10),
         (7/10, [(''head'', (0, 0, 0)), (''neck'', (0, 0, 0))], 2/10) ],
       1/10),
      (''DEFAULT'',
       [ (0, [(''head'', (0, 0, 0)), (''right_hand'', (3/10, 5/10, 0)),
              (''left_hand'', (- (3/10), 5/10, 0)), (''torso'', (0, 0, 0))], 1) ],
       2/10) ]"

text \<open>\<^verbatim>\<open>_initialize_pose_library\<close>: the library and the store with its dictionaries.\<close>

definition initialize_pose_library :: "heap \<Rightarrow> (string \<times> AvatarPose) list \<times> heap" where
  "initialize_pose_library h = new_poses pose_table h"

definition initialize_transition_rules :: "(string \<times> (string \<times> rat) list) list" where
  "initialize_transition_rules =
    [ (''HELLO'', [(''HOW'', 3/10), (''YOU'', 2/10), (''DEFAULT'', 4/10)]),
      (''HOW'', [(''YOU'', 2/10), (''HELLO'', 3/10), (''DEFAULT'', 3/10)]),
      (''YOU'', [(''HELLO'', 2/10), (''DEFAULT'', 3/10)]),
      (''THANK-YOU'', [(''DEFAULT'', 5/10)]),
      (''YES'', [(''DEFAULT'', 2/10)]),
      (''NO'', [(''DEFAULT'', 2/10)]),
      (''DEFAULT'', [(''HELLO'', 3/10), (''HOW'', 3/10), (''YOU'', 2/10),
                     (''THANK-YOU'', 4/10)]) ]"

text \<open>\<^verbatim>\<open>ISLGlossMapper()\<close>.\<close>

definition new_ISLGlossMapper :: "heap \<Rightarrow> ISLGlossMapper \<times> heap" where
  "new_ISLGlossMapper h =
     (let (poses, h') = initialize_pose_library h
      in (\<lparr>pose_library = poses, transition_rules = initialize_transition_rules\<rparr>, h'))"

text \<open>
  \<^verbatim>\<open>self.pose_library.get(gloss_word.upper(), self.pose_library["DEFAULT"])\<close>: the default
  argument is evaluated first and raises \<^verbatim>\<open>KeyError\<close> in a library without DEFAULT.
\<close>

definition get_pose :: "ISLGlossMapper \<Rightarrow> string \<Rightarrow> error + AvatarPose" where
  "get_pose self gloss_word =
     (case map_of (pose_library self) ''DEFAULT'' of
        None \<Rightarrow> Inl KeyError
      | Some dflt \<Rightarrow>
          (case map_of (pose_library self) (upper gloss_word) of
             None \<Rightarrow> Inr dflt
           | Some p \<Rightarrow> Inr p))"

definition get_transition_duration :: "ISLGlossMapper \<Rightarrow> string \<Rightarrow> string \<Rightarrow> rat" where
  "get_transition_duration self from_pose to_pose =
     (let from_rules = (case map_of (transition_rules self) (upper from_pose) of
                          None \<Rightarrow> [] | Some r \<Rightarrow> r)
      in case map_of from_rules (upper to_pose) of None \<Rightarrow> 3/10 | Some d \<Rightarrow> d)"

subsection \<open>The timeline builder\<close>

record AvatarAnimationEngine =
  gloss_mapper :: ISLGlossMapper
  fps :: int
  video_width :: int
  video_height :: int

text \<open>\<^verbatim>\<open>AvatarAnimationEngine()\<close>.\<close>

definition new_AvatarAnimationEngine :: "heap \<Rightarrow> AvatarAnimationEngine \<times> heap" where
  "new_AvatarAnimationEngine h =
     (let (gm, h') = new_ISLGlossMapper h
      in (\<lparr>gloss_mapper = gm, fps = 30, video_width = 400, video_height = 600\<rparr>, h'))"

text \<open>
  The module's instance \<^verbatim>\<open>animation_engine\<close>, created when the module is loaded, and the store
  that its creation leaves: the dictionaries of the library.
\<close>

definition animation_engine :: AvatarAnimationEngine where
  "animation_engine = fst (new_AvatarAnimationEngine [])"

definition library_heap :: heap where
  "library_heap = snd (new_AvatarAnimationEngine [])"

text \<open>
  The white space of \<^verbatim>\<open>str.split()\<close> and \<^verbatim>\<open>str.strip()\<close> within ASCII: tab, line feed, vertical
  tab, form feed, carriage return, the four separators 28 to 31, and the space.
\<close>

definition is_space :: "char \<Rightarrow> bool" where
  "is_space c = ((of_char c :: nat) \<in> {9, 10, 11, 12, 13, 28, 29, 30, 31, 32})"

fun split_from :: "string \<Rightarrow> string \<Rightarrow> string list" where
  "split_from cur [] = (if cur = [] then [] else [cur])"
| "split_from cur (c # cs) =
     (if is_space c then (if cur = [] then split_from [] cs else cur # split_from [] cs)
      else split_from (cur @ [c]) cs)"

definition split :: "string \<Rightarrow> string list" where
  "split s = split_from [] s"

definition strip :: "string \<Rightarrow> string" where
  "strip s = rev (dropWhile is_space (rev (dropWhile is_space s)))"

text \<open>
  \<^verbatim>\<open>_parse_gloss\<close>. The loop over the words appends the word in both branches of its test.
\<close>

definition parse_gloss :: "string \<Rightarrow> string list" where
  "parse_gloss isl_gloss =
     (let words = map strip (filter (\<lambda>word. strip word \<noteq> []) (split isl_gloss))
      in foldl (\<lambda>processed_words word.
                  if CHR ''-'' \<in> set word \<and> count_list word (CHR ''-'') = 1
                  then processed_words @ [word]
                  else processed_words @ [word]) [] words)"

text \<open>
  The inner loop of \<^verbatim>\<open>_generate_keyframe_sequence\<close>: each key frame of the pose is appended
  with its time stamp moved by \<open>current_time\<close> and a copy of its dictionary.
\<close>

fun add_pose_keyframes ::
  "rat \<Rightarrow> KeyFrame list \<Rightarrow> KeyFrame list \<times> heap \<Rightarrow> KeyFrame list \<times> heap" where
  "add_pose_keyframes current_time [] (out, h) = (out, h)"
| "add_pose_keyframes current_time (keyframe # rest) (out, h) =
     (let (a, h') = dict_copy h (joint_positions keyframe);
          adjusted_keyframe =
            \<lparr>timestamp = current_time + timestamp keyframe,
             joint_positions = a,
             duration = duration keyframe\<rparr>
      in add_pose_keyframes current_time rest (out @ [adjusted_keyframe], h'))"

text \<open>
  The loop \<^verbatim>\<open>for i, word in enumerate(gloss_words)\<close>, from index \<open>i\<close> on. Its state is the
  list of key frames built so far, \<open>current_time\<close>, \<open>previous_pose\<close> and the store.
\<close>

type_synonym loop_state = "KeyFrame list \<times> rat \<times> string \<times> heap"

fun word_loop ::
  "ISLGlossMapper \<Rightarrow> nat \<Rightarrow> string list \<Rightarrow> loop_state \<Rightarrow> error + loop_state" where
  "word_loop gm i [] s = Inr s"
| "word_loop gm i (word # rest) (out, current_time, previous_pose, h) =
     (case get_pose gm word of
        Inl e \<Rightarrow> Inl e
      | Inr pose \<Rightarrow>
          (let t = (if i > 0
                    then current_time + get_transition_duration gm previous_pose word
                    else current_time);
               (out', h') = add_pose_keyframes t (keyframes pose) (out, h)
           in word_loop gm (Suc i) rest
                (out', t + sum_list (map duration (keyframes pose)), word, h')))"

text \<open>
  \<^verbatim>\<open>_generate_keyframe_sequence\<close>. The rest key frame takes the dictionary of the first key
  frame of the DEFAULT pose as it is; \<^verbatim>\<open>keyframes[0]\<close> raises \<^verbatim>\<open>IndexError\<close> on a pose
  without key frames.
\<close>

definition generate_keyframe_sequence ::
  "AvatarAnimationEngine \<Rightarrow> heap \<Rightarrow> string list \<Rightarrow> error + (KeyFrame list \<times> heap)" where
  "generate_keyframe_sequence self h gloss_words =
     (case word_loop (gloss_mapper self) 0 gloss_words ([], 0, ''DEFAULT'', h) of
        Inl e \<Rightarrow> Inl e
      | Inr (out, current_time, previous_pose, h') \<Rightarrow>
          (case get_pose (gloss_mapper self) ''DEFAULT'' of
             Inl e \<Rightarrow> Inl e
           | Inr dflt \<Rightarrow>
               (case keyframes dflt of
                  [] \<Rightarrow> Inl IndexError
                | k0 # _ \<Rightarrow>
                    Inr (out @
                           [\<lparr>timestamp = current_time + 1/2,
                             joint_positions = joint_positions k0,
                             duration = 1/2\<rparr>],
                         h'))))"

subsection \<open>Packaging\<close>

text \<open>The values that \<^verbatim>\<open>json.dumps\<close> writes; a dictionary keeps its insertion order.\<close>

datatype json =
    JNull
  | JBool bool
  | JInt int
  | JNum rat
  | JStr string
  | JArr "json list"
  | JObj "(string \<times> json) list"

type_synonym py_dict = "(string \<times> json) list"

definition dict_get :: "py_dict \<Rightarrow> string \<Rightarrow> json \<Rightarrow> json" where
  "dict_get d k dflt = (case map_of d k of None \<Rightarrow> dflt | Some v \<Rightarrow> v)"

text \<open>\<^verbatim>\<open>d[k] = v\<close> and \<^verbatim>\<open>del d[k]\<close> on a dictionary in insertion order.\<close>

fun dict_set :: "('k \<times> 'v) list \<Rightarrow> 'k \<Rightarrow> 'v \<Rightarrow> ('k \<times> 'v) list" where
  "dict_set [] k v = [(k, v)]"
| "dict_set ((k', v') # d) k v = (if k' = k then (k, v) # d else (k', v') # dict_set d k v)"

definition dict_del :: "('k \<times> 'v) list \<Rightarrow> 'k \<Rightarrow> ('k \<times> 'v) list" where
  "dict_del d k = filter (\<lambda>(k', v). k' \<noteq> k) d"

definition dict_keys :: "('k \<times> 'v) list \<Rightarrow> 'k set" where
  "dict_keys d = fst ` set d"

text \<open>
  Python's library, which is not part of the repository: \<^verbatim>\<open>json.dumps\<close> (with the following
  \<^verbatim>\<open>encode('utf-8')\<close>), \<^verbatim>\<open>json.loads\<close> (with the preceding \<^verbatim>\<open>decode('utf-8')\<close>),
  \<^verbatim>\<open>base64.b64encode\<close> and \<^verbatim>\<open>base64.b64decode\<close>. A decoder returns \<open>None\<close> where Python's
  raises.
\<close>

record stdlib =
  json_dumps :: "json \<Rightarrow> string"
  json_loads :: "string \<Rightarrow> json option"
  b64encode :: "string \<Rightarrow> string"
  b64decode :: "string \<Rightarrow> string option"

definition joints_json :: "joint_dict \<Rightarrow> json" where
  "joints_json d = JObj (map (\<lambda>(k, (x, y, z)). (k, JArr [JNum x, JNum y, JNum z])) d)"

text \<open>
  One entry of \<^verbatim>\<open>animation_frames\<close>. The SVG snapshot of \<^verbatim>\<open>_create_visual_frame\<close> is the
  parameter \<open>visual\<close>: it truncates products of floats to pixels, and nothing below reads it.
\<close>

definition frame_data ::
  "(KeyFrame \<Rightarrow> joint_dict \<Rightarrow> nat \<Rightarrow> json) \<Rightarrow> heap \<Rightarrow> nat \<Rightarrow> nat \<Rightarrow> KeyFrame \<Rightarrow> json" where
  "frame_data visual h n i keyframe =
     JObj [(''frame_number'', JInt (int i)),
           (''timestamp'', JNum (timestamp keyframe)),
           (''duration'', JNum (duration keyframe)),
           (''joint_positions'', joints_json (h ! joint_positions keyframe)),
           (''interpolation'', JStr (if int i < int n - 1 then ''linear'' else ''hold'')),
           (''visual_frame'', visual keyframe (h ! joint_positions keyframe) i)]"

definition video_metadata ::
  "(KeyFrame \<Rightarrow> joint_dict \<Rightarrow> nat \<Rightarrow> json) \<Rightarrow> AvatarAnimationEngine \<Rightarrow> heap \<Rightarrow>
   KeyFrame list \<Rightarrow> json" where
  "video_metadata visual self h kfs =
     (let animation_frames =
            map (\<lambda>(i, keyframe). frame_data visual h (length kfs) i keyframe)
                (enumerate 0 kfs)
      in JObj [(''format'', JStr ''isl_animation_data''),
               (''version'', JStr ''1.0''),
               (''frames'', JArr animation_frames),
               (''total_frames'', JInt (int (length animation_frames))),
               (''duration'', (if kfs \<noteq> []
                               then JNum (timestamp (last kfs) + duration (last kfs))
                               else JInt 0)),
               (''fps'', JInt (fps self)),
               (''width'', JInt (video_width self)),
               (''height'', JInt (video_height self))])"

text \<open>\<^verbatim>\<open>_generate_video_frames\<close>.\<close>

definition generate_video_frames ::
  "stdlib \<Rightarrow> (KeyFrame \<Rightarrow> joint_dict \<Rightarrow> nat \<Rightarrow> json) \<Rightarrow> AvatarAnimationEngine \<Rightarrow> heap \<Rightarrow>
   KeyFrame list \<Rightarrow> string" where
  "generate_video_frames lib visual self h kfs =
     b64encode lib (json_dumps lib (video_metadata visual self h kfs))"

text \<open>\<^verbatim>\<open>int(x)\<close> truncates towards zero; \<^verbatim>\<open>round(x, 2)\<close> rounds half to even.\<close>

definition py_int :: "rat \<Rightarrow> int" where
  "py_int x = (if 0 \<le> x then \<lfloor>x\<rfloor> else \<lceil>x\<rceil>)"

definition round_half_even :: "rat \<Rightarrow> int" where
  "round_half_even x =
     (let f = \<lfloor>x\<rfloor>; d = x - of_int f
      in if d < 1/2 then f else if 1/2 < d then f + 1 else if even f then f else f + 1)"

definition py_round2 :: "rat \<Rightarrow> rat" where
  "py_round2 x = of_int (round_half_even (x * 100)) / 100"

fun show_nat :: "nat \<Rightarrow> string" where
  "show_nat n =
     (if n < 10 then [char_of (48 + n)] else show_nat (n div 10) @ [char_of (48 + n mod 10)])"

declare show_nat.simps [simp del]

definition show_int :: "int \<Rightarrow> string" where
  "show_int i = (if i < 0 then CHR ''-'' # show_nat (nat (- i)) else show_nat (nat i))"

text \<open>
  \<^verbatim>\<open>generate_animation_sequence\<close>. The three readings of \<^verbatim>\<open>time.time()\<close> are the parameters
  \<open>t0\<close>, \<open>t1\<close> and \<open>t2\<close>.
\<close>

definition generate_animation_sequence ::
  "stdlib \<Rightarrow> (KeyFrame \<Rightarrow> joint_dict \<Rightarrow> nat \<Rightarrow> json) \<Rightarrow> rat \<Rightarrow> rat \<Rightarrow> rat \<Rightarrow>
   AvatarAnimationEngine \<Rightarrow> heap \<Rightarrow> string \<Rightarrow> error + (py_dict \<times> heap)" where
  "generate_animation_sequence lib visual t0 t1 t2 self h isl_gloss =
     (let gloss_words = parse_gloss isl_gloss
      in case generate_keyframe_sequence self h gloss_words of
           Inl e \<Rightarrow> Inl e
         | Inr (kfs, h') \<Rightarrow>
             (let total_duration = sum_list (map duration kfs);
                  frame_count = py_int (total_duration * of_int (fps self));
                  video_data = generate_video_frames lib visual self h' kfs;
                  processing_time = (t1 - t0) * 1000
              in Inr ([(''gloss_input'', JStr isl_gloss),
                       (''parsed_words'', JArr (map JStr gloss_words)),
                       (''total_duration_seconds'', JNum (py_round2 total_duration)),
                       (''frame_count'', JInt frame_count),
                       (''fps'', JInt (fps self)),
                       (''resolution'',
                          JStr (show_int (video_width self) @ ''x'' @
                                show_int (video_height self))),
                       (''keyframe_count'', JInt (int (length kfs))),
                       (''video_format'', JStr ''webm''),
                       (''video_data_base64'', JStr video_data),
                       (''processing_time_ms'', JNum (py_round2 processing_time)),
                       (''timestamp'', JNum t2)],
                      h')))"

text \<open>
  The artifact that \<^verbatim>\<open>generate_avatar_animation\<close> returns when the generation raised: it has
  no \<^verbatim>\<open>video_data_base64\<close>.
\<close>

definition fallback_data :: "string \<Rightarrow> string \<Rightarrow> rat \<Rightarrow> py_dict" where
  "fallback_data isl_gloss err now =
     [(''gloss_input'', JStr isl_gloss),
      (''error'', JStr err),
      (''fallback'', JBool True),
      (''processing_time_ms'', JInt 0),
      (''timestamp'', JNum now)]"

subsection \<open>The stream manager\<close>

record WebSocket =
  sock_id :: nat
  client :: "string option"

record conn_meta =
  connected_at :: rat
  client_ip :: string
  frames_sent :: nat
  last_activity :: rat

text \<open>
  A call of \<^verbatim>\<open>websocket.send_text\<close>: the socket, the message, and whether the call returned
  (\<open>Sent\<close>) or raised (\<open>Failed\<close>).
\<close>

datatype send_event = Sent WebSocket json | Failed WebSocket json

text \<open>
  The three dictionaries of \<^verbatim>\<open>AvatarStreamManager\<close>, and in \<open>wire\<close> the calls of
  \<^verbatim>\<open>send_text\<close> made so far, oldest first.
\<close>

record AvatarStreamManager =
  active_connections :: "(string \<times> WebSocket) list"
  animation_cache :: "(string \<times> py_dict) list"
  connection_metadata :: "(string \<times> conn_meta) list"
  wire :: "send_event list"

definition new_AvatarStreamManager :: AvatarStreamManager where
  "new_AvatarStreamManager =
     \<lparr>active_connections = [], animation_cache = [], connection_metadata = [], wire = []\<rparr>"

text \<open>
  The surroundings of a call: whether the call of \<^verbatim>\<open>send_text\<close> made when \<open>k\<close> calls have been
  made before returns, and the reading of the clock then.
\<close>

record env =
  send_ok :: "nat \<Rightarrow> bool"
  clock :: "nat \<Rightarrow> rat"

text \<open>
  \<^verbatim>\<open>connect\<close>. \<open>accepted\<close> tells whether \<^verbatim>\<open>websocket.accept()\<close> returns; when it raises, nothing
  is registered.
\<close>

definition connect ::
  "bool \<Rightarrow> rat \<Rightarrow> AvatarStreamManager \<Rightarrow> WebSocket \<Rightarrow> string \<Rightarrow> error + AvatarStreamManager" where
  "connect accepted now self websocket stream_id =
     (if \<not> accepted then Inl TransportError
      else Inr (self
        \<lparr>active_connections := dict_set (active_connections self) stream_id websocket,
         connection_metadata := dict_set (connection_metadata self) stream_id
            \<lparr>connected_at = now,
             client_ip = (case client websocket of Some host \<Rightarrow> host | None \<Rightarrow> ''unknown''),
             frames_sent = 0,
             last_activity = now\<rparr>\<rparr>))"

definition disconnect :: "AvatarStreamManager \<Rightarrow> string \<Rightarrow> AvatarStreamManager" where
  "disconnect self stream_id =
     (let s1 = (if stream_id \<in> dict_keys (active_connections self)
                then self\<lparr>active_connections := dict_del (active_connections self) stream_id\<rparr>
                else self)
      in if stream_id \<in> dict_keys (connection_metadata s1)
         then s1\<lparr>connection_metadata := dict_del (connection_metadata s1) stream_id\<rparr>
         else s1)"

definition store_animation_data ::
  "rat \<Rightarrow> AvatarStreamManager \<Rightarrow> string \<Rightarrow> py_dict \<Rightarrow> AvatarStreamManager" where
  "store_animation_data now self stream_id animation_data =
     self\<lparr>animation_cache :=
            dict_set (animation_cache self) stream_id
              (dict_set animation_data ''cached_at'' (JNum now))\<rparr>"

text \<open>
  \<^verbatim>\<open>send_animation_frame\<close>: the result of the call and the manager after it.
\<close>

definition send_animation_frame ::
  "env \<Rightarrow> AvatarStreamManager \<Rightarrow> string \<Rightarrow> json \<Rightarrow> bool \<times> AvatarStreamManager" where
  "send_animation_frame e self stream_id frame =
     (case map_of (active_connections self) stream_id of
        None \<Rightarrow> (False, self)
      | Some websocket \<Rightarrow>
          (let k = length (wire self)
           in if send_ok e k
              then (let s1 = self\<lparr>wire := wire self @ [Sent websocket frame]\<rparr>
                    in (True,
                        (case map_of (connection_metadata s1) stream_id of
                           None \<Rightarrow> s1
                         | Some m \<Rightarrow>
                             s1\<lparr>connection_metadata :=
                                  dict_set (connection_metadata s1) stream_id
                                    (m\<lparr>frames_sent := frames_sent m + 1,
                                       last_activity := clock e k\<rparr>)\<rparr>)))
              else (False,
                    disconnect (self\<lparr>wire := wire self @ [Failed websocket frame]\<rparr>)
                      stream_id)))"

definition error_frame :: "string \<Rightarrow> string \<Rightarrow> string \<Rightarrow> rat \<Rightarrow> json" where
  "error_frame stream_id error_code error_message now =
     JObj [(''type'', JStr ''error''),
           (''stream_id'', JStr stream_id),
           (''error'', JObj [(''code'', JStr error_code),
                             (''message'', JStr error_message),
                             (''timestamp'', JNum now)])]"

definition send_error ::
  "env \<Rightarrow> AvatarStreamManager \<Rightarrow> string \<Rightarrow> string \<Rightarrow> string \<Rightarrow> AvatarStreamManager" where
  "send_error e self stream_id error_code error_message =
     snd (send_animation_frame e self stream_id
            (error_frame stream_id error_code error_message (clock e (length (wire self)))))"

text \<open>Python's truth value of a decoded value, and its value as a number.\<close>

fun truthy :: "json \<Rightarrow> bool" where
  "truthy JNull = False"
| "truthy (JBool b) = b"
| "truthy (JInt i) = (i \<noteq> 0)"
| "truthy (JNum r) = (r \<noteq> 0)"
| "truthy (JStr s) = (s \<noteq> [])"
| "truthy (JArr xs) = (xs \<noteq> [])"
| "truthy (JObj kvs) = (kvs \<noteq> [])"

fun number :: "json \<Rightarrow> rat option" where
  "number (JBool b) = Some (if b then 1 else 0)"
| "number (JInt i) = Some (of_int i)"
| "number (JNum r) = Some r"
| "number _ = None"

text \<open>The elements that \<^verbatim>\<open>for frame in frames\<close> visits; \<open>None\<close> where \<^verbatim>\<open>len(frames)\<close> raises.\<close>

fun elements :: "json \<Rightarrow> json list option" where
  "elements (JArr xs) = Some xs"
| "elements (JStr s) = Some (map (\<lambda>c. JStr [c]) s)"
| "elements (JObj kvs) = Some (map (\<lambda>(k, v). JStr k) kvs)"
| "elements _ = None"

text \<open>
  The decoding at the head of the inner \<^verbatim>\<open>try\<close> of \<^verbatim>\<open>stream_animation\<close>: the frames and the
  frame rate read from the blob, \<open>None\<close> where a statement raises (all of them do so before
  the first frame is sent).
\<close>

definition decode_animation :: "stdlib \<Rightarrow> json \<Rightarrow> (json list \<times> json) option" where
  "decode_animation lib video_data_base64 =
     (case video_data_base64 of
        JStr blob \<Rightarrow>
          (case b64decode lib blob of
             None \<Rightarrow> None
           | Some decoded_data \<Rightarrow>
               (case json_loads lib decoded_data of
                  Some (JObj animation_json) \<Rightarrow>
                    (let frames = dict_get animation_json ''frames'' (JArr []);
                         rate = dict_get animation_json ''fps'' (JInt 30)
                     in case number rate of
                          None \<Rightarrow> None
                        | Some f \<Rightarrow>
                            if f = 0 then None
                            else (case elements frames of
                                    None \<Rightarrow> None
                                  | Some fs \<Rightarrow> Some (fs, rate)))
                | _ \<Rightarrow> None))
      | _ \<Rightarrow> None)"

definition metadata_message :: "string \<Rightarrow> py_dict \<Rightarrow> rat \<Rightarrow> json" where
  "metadata_message stream_id animation_data now =
     JObj [(''type'', JStr ''animation_metadata''),
           (''stream_id'', JStr stream_id),
           (''data'', JObj
              [(''total_duration'', dict_get animation_data ''total_duration_seconds'' (JInt 0)),
               (''frame_count'', dict_get animation_data ''frame_count'' (JInt 0)),
               (''fps'', dict_get animation_data ''fps'' (JInt 30)),
               (''resolution'', dict_get animation_data ''resolution'' (JStr ''400x600'')),
               (''gloss_input'', dict_get animation_data ''gloss_input'' (JStr [])),
               (''parsed_words'', dict_get animation_data ''parsed_words'' (JArr []))]),
           (''timestamp'', JNum now)]"

definition frame_message :: "string \<Rightarrow> json \<Rightarrow> rat \<Rightarrow> json" where
  "frame_message stream_id frame now =
     JObj [(''type'', JStr ''animation_frame''),
           (''stream_id'', JStr stream_id),
           (''data'', frame),
           (''timestamp'', JNum now)]"

definition completion_message :: "string \<Rightarrow> nat \<Rightarrow> py_dict \<Rightarrow> rat \<Rightarrow> json" where
  "completion_message stream_id n animation_data now =
     JObj [(''type'', JStr ''animation_complete''),
           (''stream_id'', JStr stream_id),
           (''data'', JObj
              [(''frames_sent'', JInt (int n)),
               (''total_duration'', dict_get animation_data ''total_duration_seconds'' (JInt 0))]),
           (''timestamp'', JNum now)]"

text \<open>The loop \<^verbatim>\<open>for frame in frames\<close>, which stops at the first send that fails.\<close>

fun send_frames ::
  "env \<Rightarrow> AvatarStreamManager \<Rightarrow> string \<Rightarrow> json list \<Rightarrow> AvatarStreamManager" where
  "send_frames e self stream_id [] = self"
| "send_frames e self stream_id (frame # rest) =
     (let (ok, s1) = send_animation_frame e self stream_id
                       (frame_message stream_id frame (clock e (length (wire self))))
      in if \<not> ok then s1 else send_frames e s1 stream_id rest)"

text \<open>
  \<^verbatim>\<open>stream_animation\<close>. No statement of the outer \<^verbatim>\<open>try\<close> raises outside the inner one
  (\<^verbatim>\<open>send_animation_frame\<close> catches what the transport raises), so the handler that sends
  \<^verbatim>\<open>STREAMING_ERROR\<close> has no branch here; the pause between two frames is not modelled.
\<close>

definition stream_animation ::
  "stdlib \<Rightarrow> env \<Rightarrow> AvatarStreamManager \<Rightarrow> string \<Rightarrow> AvatarStreamManager" where
  "stream_animation lib e self stream_id =
     (case map_of (animation_cache self) stream_id of
        None \<Rightarrow>
          send_error e self stream_id ''ANIMATION_NOT_FOUND'' ''Animation data not available''
      | Some animation_data \<Rightarrow>
          (if stream_id \<notin> dict_keys (active_connections self) then self
           else
             (let (ok, s1) = send_animation_frame e self stream_id
                               (metadata_message stream_id animation_data
                                  (clock e (length (wire self))))
              in if \<not> ok then s1
                 else
                   (let video_data_base64 =
                          dict_get animation_data ''video_data_base64'' (JStr [])
                    in if truthy video_data_base64
                       then (case decode_animation lib video_data_base64 of
                               None \<Rightarrow>
                                 send_error e s1 stream_id ''DECODE_ERROR''
                                   ''Failed to decode animation data''
                             | Some (frames, rate) \<Rightarrow>
                                 (let s2 = send_frames e s1 stream_id frames
                                  in snd (send_animation_frame e s2 stream_id
                                            (completion_message stream_id (length frames)
                                               animation_data
                                               (clock e (length (wire s2)))))))
                       else send_error e s1 stream_id ''NO_ANIMATION_DATA''
                              ''No animation frames available''))))"

text \<open>
  \<^verbatim>\<open>cleanup_expired_streams\<close>: the first loop collects the expired stream ids, and raises
  \<^verbatim>\<open>TypeError\<close> at an entry whose \<^verbatim>\<open>cached_at\<close> is not a number; the second deletes them.
\<close>

fun expired_streams :: "rat \<Rightarrow> rat \<Rightarrow> (string \<times> py_dict) list \<Rightarrow> error + string list" where
  "expired_streams current_time max_age_seconds [] = Inr []"
| "expired_streams current_time max_age_seconds ((stream_id, data) # rest) =
     (case number (dict_get data ''cached_at'' (JInt 0)) of
        None \<Rightarrow> Inl TypeError
      | Some c \<Rightarrow>
          (case expired_streams current_time max_age_seconds rest of
             Inl err \<Rightarrow> Inl err
           | Inr xs \<Rightarrow>
               Inr (if current_time - c > max_age_seconds then stream_id # xs else xs)))"

definition cleanup_expired_streams ::
  "rat \<Rightarrow> rat \<Rightarrow> AvatarStreamManager \<Rightarrow> error + AvatarStreamManager" where
  "cleanup_expired_streams current_time max_age_seconds self =
     (case expired_streams current_time max_age_seconds (animation_cache self) of
        Inl err \<Rightarrow> Inl err
      | Inr expired \<Rightarrow>
          Inr (self\<lparr>animation_cache := foldl dict_del (animation_cache self) expired\<rparr>))"

text \<open>
  The states of the manager that its operations reach from the new manager, whatever the
  arguments and whatever the transport does.
\<close>

inductive reachable :: "AvatarStreamManager \<Rightarrow> bool" where
  init: "reachable new_AvatarStreamManager"
| connect: "reachable s \<Longrightarrow> connect accepted now s websocket stream_id = Inr s' \<Longrightarrow> reachable s'"
| disconnect: "reachable s \<Longrightarrow> reachable (disconnect s stream_id)"
| store: "reachable s \<Longrightarrow> reachable (store_animation_data now s stream_id animation_data)"
| send_frame: "reachable s \<Longrightarrow> reachable (snd (send_animation_frame e s stream_id frame))"
| send_error: "reachable s \<Longrightarrow> reachable (send_error e s stream_id error_code error_message)"
| stream: "reachable s \<Longrightarrow> reachable (stream_animation lib e s stream_id)"
| cleanup: "reachable s \<Longrightarrow> cleanup_expired_streams now max_age s = Inr s' \<Longrightarrow> reachable s'"

subsection \<open>Notions used in the statements and in the proofs\<close>

text \<open>
  The mapper and the poses of the engine, the DEFAULT pose of the library, the pose that
  \<^verbatim>\<open>get_pose\<close> returns for a word, the sum of its key-frame durations, and the transition
  durations that the loop adds for a list of words: one for each pair of neighbours.
\<close>

definition mk_keyframe :: "rat \<Rightarrow> addr \<Rightarrow> rat \<Rightarrow> KeyFrame" where
  "mk_keyframe t a d = \<lparr>timestamp = t, joint_positions = a, duration = d\<rparr>"

definition library_mapper :: ISLGlossMapper where
  "library_mapper = gloss_mapper animation_engine"

definition library_poses :: "(string \<times> AvatarPose) list" where
  "library_poses = pose_library library_mapper"

definition default_pose :: AvatarPose where
  "default_pose = \<lparr>name = ''DEFAULT'', keyframes = [mk_keyframe 0 18 1], transition_duration = 2/10\<rparr>"

definition wf_pose :: "AvatarPose \<Rightarrow> bool" where
  "wf_pose p \<longleftrightarrow>
     sorted (map timestamp (keyframes p)) \<and>
     (\<forall>k \<in> set (keyframes p).
        0 \<le> timestamp k \<and> timestamp k \<le> sum_list (map duration (keyframes p)))"

definition pose_duration :: "string \<Rightarrow> rat" where
  "pose_duration w =
     (case get_pose (gloss_mapper animation_engine) w of
        Inl e \<Rightarrow> 0
      | Inr p \<Rightarrow> sum_list (map duration (keyframes p)))"

definition transitions_used :: "string list \<Rightarrow> rat list" where
  "transitions_used ws =
     map (\<lambda>(a, b). get_transition_duration (gloss_mapper animation_engine) a b) (zip ws (tl ws))"

definition lookup_pose :: "string \<Rightarrow> AvatarPose" where
  "lookup_pose w =
     (case map_of library_poses (upper w) of None \<Rightarrow> default_pose | Some p \<Rightarrow> p)"

definition step_time :: "nat \<Rightarrow> rat \<Rightarrow> string \<Rightarrow> string \<Rightarrow> rat" where
  "step_time i t p w =
     (if 0 < i then t + get_transition_duration library_mapper p w else t)"



definition json_field :: "json \<Rightarrow> string \<Rightarrow> json option" where
  "json_field v k = (case v of JObj kvs \<Rightarrow> map_of kvs k | _ \<Rightarrow> None)"

text \<open>The two registries of connections have the same keys.\<close>

definition keys_agree :: "AvatarStreamManager \<Rightarrow> bool" where
  "keys_agree s \<longleftrightarrow> dict_keys (active_connections s) = dict_keys (connection_metadata s)"

subsection \<open>Instances used in the witnesses\<close>

text \<open>
  A library whose decoders invert its encoders: a JSON value is written as the unary numeral
  of its number in an enumeration of the JSON values, and base64 is the identity.
\<close>

instance json :: countable
  by countable_datatype

definition unary_lib :: stdlib where
  "unary_lib =
     \<lparr>json_dumps = (\<lambda>v. replicate (to_nat v) (CHR ''1'')),
      json_loads = (\<lambda>s. Some (from_nat (length s))),
      b64encode = (\<lambda>s. s),
      b64decode = Some\<rparr>"

text \<open>
  A renderer for the visual frames, and two transports: one that delivers every message, one
  that fails at every message.
\<close>

definition no_visual :: "KeyFrame \<Rightarrow> joint_dict \<Rightarrow> nat \<Rightarrow> json" where
  "no_visual keyframe joints i = JNull"

definition reliable :: env where
  "reliable = \<lparr>send_ok = (\<lambda>k. True), clock = (\<lambda>k. 0)\<rparr>"

definition unreliable :: env where
  "unreliable = \<lparr>send_ok = (\<lambda>k. False), clock = (\<lambda>k. 0)\<rparr>"

text \<open>
  A manager with one connection, as \<^verbatim>\<open>connect\<close> leaves the new manager, and the same manager
  with a fallback artifact cached for the connected stream.
\<close>

definition a_socket :: WebSocket where
  "a_socket = \<lparr>sock_id = 1, client = Some ''10.0.0.7''\<rparr>"

definition one_connection :: AvatarStreamManager where
  "one_connection =
     \<lparr>active_connections = [(''s1'', a_socket)],
      animation_cache = [],
      connection_metadata =
        [(''s1'', \<lparr>connected_at = 0, client_ip = ''10.0.0.7'', frames_sent = 0,
                   last_activity = 0\<rparr>)],
      wire = []\<rparr>"

definition one_fallback :: AvatarStreamManager where
  "one_fallback =
     store_animation_data 0 one_connection ''s1'' (fallback_data ''HELLO'' ''failed'' 0)"

section \<open>Properties of the pose library and the timeline builder\<close>

text \<open>
  What the creation of the engine leaves: the library with the addresses of its dictionaries,
  and the store with the dictionaries.
\<close>

lemma module_init:
  "new_AvatarAnimationEngine [] =
    (\<lparr>gloss_mapper =
        \<lparr>pose_library =
    [ (''HELLO'', \<lparr>name = ''HELLO'',
         keyframes = [mk_keyframe 0 0 (5/10), mk_keyframe (5/10) 1 (5/10),
                      mk_keyframe 1 2 (3/10)],
         transition_duration = 2/10\<rparr>),
      (''HOW'', \<lparr>name = ''HOW'',
         keyframes = [mk_keyframe 0 3 (8/10), mk_keyframe (8/10) 4 (4/10)],
         transition_duration = 3/10\<rparr>),
      (''YOU'', \<lparr>name = ''YOU'',
         keyframes = [mk_keyframe 0 5 (6/10), mk_keyframe (6/10) 6 (4/10)],
         transition_duration = 2/10\<rparr>),
      (''THANK-YOU'', \<lparr>name = ''THANK-YOU'',
         keyframes = [mk_keyframe 0 7 (5/10), mk_keyframe (5/10) 8 (8/10),
                      mk_keyframe (13/10) 9 (4/10)],
         transition_duration = 3/10\<rparr>),
      (''YES'', \<lparr>name = ''YES'',
         keyframes = [mk_keyframe 0 10 (2/10), mk_keyframe (2/10) 11 (3/10),
                      mk_keyframe (5/10) 12 (3/10), mk_keyframe (8/10) 13 (2/10)],
         transition_duration = 1/10\<rparr>),
      (''NO'', \<lparr>name = ''NO'',
         keyframes = [mk_keyframe 0 14 (1/10), mk_keyframe (1/10) 15 (3/10),
                      mk_keyframe (4/10) 16 (3/10), mk_keyframe (7/10) 17 (2/10)],
         transition_duration = 1/10\<rparr>),
      (''DEFAULT'', \<lparr>name = ''DEFAULT'',
         keyframes = [mk_keyframe 0 18 1],
         transition_duration = 2/10\<rparr>) ],
         transition_rules = initialize_transition_rules\<rparr>,
      fps = 30, video_width = 400, video_height = 600\<rparr>,
    [ [(''right_hand'', (3/10, 8/10, 0)), (''right_wrist'', (35/100, 75/100, 0)),
       (''head'', (0, 0, 5/100))],
      [(''right_hand'', (4/10, 9/10, 1/10)), (''right_wrist'', (45/100, 85/100, 1/10)),
       (''head'', (0, 0, - (5/100)))],
      [(''right_hand'', (3/10, 8/10, 0)), (''right_wrist'', (35/100, 75/100, 0)),
       (''head'', (0, 0, 0))],
      [(''both_hands'', (0, 6/10, 0)), (''right_hand'', (2/10, 6/10, 0)),
       (''left_hand'', (- (2/10), 6/10, 0)), (''eyebrows'', (0, 1/10, 0))],
      [(''both_hands'', (0, 7/10, 1/10)), (''right_hand'', (25/100, 7/10, 1/10)),
       (''left_hand'', (- (25/100), 7/10, 1/10)), (''eyebrows'', (0, 15/100, 0))],
      [(''right_hand'', (0, 7/10, 3/10)), (''right_index'', (0, 75/100, 35/100)),
       (''head'', (0, 0, 0)), (''eyes'', (0, 0, 1/10))],
      [(''right_hand'', (5/100, 7/10, 4/10)), (''right_index'', (5/100, 75/100, 45/100)),
       (''head'', (0, 2/100, 0)), (''eyes'', (0, 0, 15/100))],
      [(''right_hand'', (0, 9/10, 2/10)), (''right_palm'', (0, 95/100, 25/100)),
       (''head'', (0, - (1/10), 0))],
      [(''right_hand'', (0, 7/10, 4/10)), (''right_palm'', (0, 75/100, 45/100)),
       (''head'', (0, - (15/100), 0))],
      [(''right_hand'', (0, 6/10, 2/10)), (''right_palm'', (0, 65/100, 25/100)),
       (''head'', (0, 0, 0))],
      [(''head'', (0, 0, 0)), (''neck'', (0, 0, 0))],
      [(''head'', (0, - (2/10), 0)), (''neck'', (0, - (1/10), 0))],
      [(''head'', (0, 1/10, 0)), (''neck'', (0, 5/100, 0))],
      [(''head'', (0, 0, 0)), (''neck'', (0, 0, 0))],
      [(''head'', (0, 0, 0)), (''neck'', (0, 0, 0))],
      [(''head'', (- (15/100), 0, 0)), (''neck'', (- (1/10), 0, 0))],
      [(''head'', (15/100, 0, 0)), (''neck'', (1/10, 0, 0))],
      [(''head'', (0, 0, 0)), (''neck'', (0, 0, 0))],
      [(''head'', (0, 0, 0)), (''right_hand'', (3/10, 5/10, 0)),
       (''left_hand'', (- (3/10), 5/10, 0)), (''torso'', (0, 0, 0))] ])"
  by (simp add: new_AvatarAnimationEngine_def new_ISLGlossMapper_def initialize_pose_library_def
        pose_table_def new_keyframe_def alloc_def mk_keyframe_def)

lemma library_poses_eval:
  "library_poses =
    [ (''HELLO'', \<lparr>name = ''HELLO'',
         keyframes = [mk_keyframe 0 0 (5/10), mk_keyframe (5/10) 1 (5/10),
                      mk_keyframe 1 2 (3/10)],
         transition_duration = 2/10\<rparr>),
      (''HOW'', \<lparr>name = ''HOW'',
         keyframes = [mk_keyframe 0 3 (8/10), mk_keyframe (8/10) 4 (4/10)],
         transition_duration = 3/10\<rparr>),
      (''YOU'', \<lparr>name = ''YOU'',
         keyframes = [mk_keyframe 0 5 (6/10), mk_keyframe (6/10) 6 (4/10)],
         transition_duration = 2/10\<rparr>),
      (''THANK-YOU'', \<lparr>name = ''THANK-YOU'',
         keyframes = [mk_keyframe 0 7 (5/10), mk_keyframe (5/10) 8 (8/10),
                      mk_keyframe (13/10) 9 (4/10)],
         transition_duration = 3/10\<rparr>),
      (''YES'', \<lparr>name = ''YES'',
         keyframes = [mk_keyframe 0 10 (2/10), mk_keyframe (2/10) 11 (3/10),
                      mk_keyframe (5/10) 12 (3/10), mk_keyframe (8/10) 13 (2/10)],
         transition_duration = 1/10\<rparr>),
      (''NO'', \<lparr>name = ''NO'',
         keyframes = [mk_keyframe 0 14 (1/10), mk_keyframe (1/10) 15 (3/10),
                      mk_keyframe (4/10) 16 (3/10), mk_keyframe (7/10) 17 (2/10)],
         transition_duration = 1/10\<rparr>),
      (''DEFAULT'', \<lparr>name = ''DEFAULT'',
         keyframes = [mk_keyframe 0 18 1],
         transition_duration = 2/10\<rparr>) ]"
  by (simp add: library_poses_def library_mapper_def animation_engine_def module_init)

lemma library_heap_eval:
  "library_heap =
    [ [(''right_hand'', (3/10, 8/10, 0)), (''right_wrist'', (35/100, 75/100, 0)),
       (''head'', (0, 0, 5/100))],
      [(''right_hand'', (4/10, 9/10, 1/10)), (''right_wrist'', (45/100, 85/100, 1/10)),
       (''head'', (0, 0, - (5/100)))],
      [(''right_hand'', (3/10, 8/10, 0)), (''right_wrist'', (35/100, 75/100, 0)),
       (''head'', (0, 0, 0))],
      [(''both_hands'', (0, 6/10, 0)), (''right_hand'', (2/10, 6/10, 0)),
       (''left_hand'', (- (2/10), 6/10, 0)), (''eyebrows'', (0, 1/10, 0))],
      [(''both_hands'', (0, 7/10, 1/10)), (''right_hand'', (25/100, 7/10, 1/10)),
       (''left_hand'', (- (25/100), 7/10, 1/10)), (''eyebrows'', (0, 15/100, 0))],
      [(''right_hand'', (0, 7/10, 3/10)), (''right_index'', (0, 75/100, 35/100)),
       (''head'', (0, 0, 0)), (''eyes'', (0, 0, 1/10))],
      [(''right_hand'', (5/100, 7/10, 4/10)), (''right_index'', (5/100, 75/100, 45/100)),
       (''head'', (0, 2/100, 0)), (''eyes'', (0, 0, 15/100))],
      [(''right_hand'', (0, 9/10, 2/10)), (''right_palm'', (0, 95/100, 25/100)),
       (''head'', (0, - (1/10), 0))],
      [(''right_hand'', (0, 7/10, 4/10)), (''right_palm'', (0, 75/100, 45/100)),
       (''head'', (0, - (15/100), 0))],
      [(''right_hand'', (0, 6/10, 2/10)), (''right_palm'', (0, 65/100, 25/100)),
       (''head'', (0, 0, 0))],
      [(''head'', (0, 0, 0)), (''neck'', (0, 0, 0))],
      [(''head'', (0, - (2/10), 0)), (''neck'', (0, - (1/10), 0))],
      [(''head'', (0, 1/10, 0)), (''neck'', (0, 5/100, 0))],
      [(''head'', (0, 0, 0)), (''neck'', (0, 0, 0))],
      [(''head'', (0, 0, 0)), (''neck'', (0, 0, 0))],
      [(''head'', (- (15/100), 0, 0)), (''neck'', (- (1/10), 0, 0))],
      [(''head'', (15/100, 0, 0)), (''neck'', (1/10, 0, 0))],
      [(''head'', (0, 0, 0)), (''neck'', (0, 0, 0))],
      [(''head'', (0, 0, 0)), (''right_hand'', (3/10, 5/10, 0)),
       (''left_hand'', (- (3/10), 5/10, 0)), (''torso'', (0, 0, 0))] ]"
  by (simp add: library_heap_def module_init)

lemma library_mapper_fields:
  "pose_library library_mapper = library_poses"
  "transition_rules library_mapper = initialize_transition_rules"
  by (simp_all add: library_poses_def library_mapper_def animation_engine_def module_init)

lemma engine_mapper: "gloss_mapper animation_engine = library_mapper"
  by (simp add: library_mapper_def)

lemma engine_fps: "fps animation_engine = 30"
  by (simp add: animation_engine_def module_init)

lemma default_in_library:
  "map_of (pose_library library_mapper) ''DEFAULT'' = Some default_pose"
  by (simp add: library_mapper_fields library_poses_eval default_pose_def)

lemma get_pose_library:
  "get_pose library_mapper w =
     Inr (case map_of library_poses (upper w) of None \<Rightarrow> default_pose | Some p \<Rightarrow> p)"
  using default_in_library
  by (simp add: get_pose_def library_mapper_fields split: option.split)

lemma library_wf: "\<forall>(k, p) \<in> set library_poses. wf_pose p"
  by (simp add: library_poses_eval wf_pose_def mk_keyframe_def)

lemma get_pose_wf:
  assumes "get_pose library_mapper w = Inr p"
  shows "wf_pose p"
proof (cases "map_of library_poses (upper w)")
  case None
  with assms have "p = default_pose" by (simp add: get_pose_library)
  then show ?thesis by (simp add: default_pose_def wf_pose_def mk_keyframe_def)
next
  case (Some q)
  with assms have "p = q" by (simp add: get_pose_library)
  moreover from Some have "(upper w, q) \<in> set library_poses" by (rule map_of_SomeD)
  ultimately show ?thesis using library_wf by blast
qed

lemma rules_nonneg:
  "\<forall>(k, r) \<in> set initialize_transition_rules. \<forall>(k', d) \<in> set r. 0 \<le> d"
  by (simp add: initialize_transition_rules_def)

lemma transition_nonneg: "0 \<le> get_transition_duration library_mapper a b"
proof (cases "map_of initialize_transition_rules (upper a)")
  case None
  then show ?thesis by (simp add: get_transition_duration_def library_mapper_fields)
next
  case (Some r)
  then have r: "(upper a, r) \<in> set initialize_transition_rules" by (rule map_of_SomeD)
  show ?thesis
  proof (cases "map_of r (upper b)")
    case None
    with Some show ?thesis by (simp add: get_transition_duration_def library_mapper_fields)
  next
    case (Some d)
    then have "(upper b, d) \<in> set r" by (rule map_of_SomeD)
    with r rules_nonneg have "0 \<le> d" by blast
    with Some \<open>map_of initialize_transition_rules (upper a) = Some r\<close> show ?thesis
      by (simp add: get_transition_duration_def library_mapper_fields)
  qed
qed

lemma add_pose_keyframes_timestamps:
  "map timestamp (fst (add_pose_keyframes t ks (out, h))) =
     map timestamp out @ map (\<lambda>k. t + timestamp k) ks"
  by (induction ks arbitrary: out h) (simp_all add: dict_copy_def alloc_def)

lemma add_pose_keyframes_durations:
  "map duration (fst (add_pose_keyframes t ks (out, h))) = map duration out @ map duration ks"
  by (induction ks arbitrary: out h) (simp_all add: dict_copy_def alloc_def)

lemma add_pose_keyframes_addresses:
  "map joint_positions (fst (add_pose_keyframes t ks (out, h))) =
     map joint_positions out @ [length h ..< length h + length ks]"
proof (induction ks arbitrary: out h)
  case Nil
  then show ?case by simp
next
  case (Cons k ks)
  have "[length h ..< length h + length (k # ks)] = length h # [Suc (length h) ..< Suc (length h) + length ks]"
    by (simp add: upt_rec)
  with Cons show ?case by (simp add: dict_copy_def alloc_def)
qed

lemma add_pose_keyframes_heap:
  "length (snd (add_pose_keyframes t ks (out, h))) = length h + length ks \<and>
   take (length h) (snd (add_pose_keyframes t ks (out, h))) = h"
proof (induction ks arbitrary: out h)
  case Nil
  then show ?case by simp
next
  case (Cons k ks)
  let ?h1 = "h @ [h ! joint_positions k]"
  let ?o1 = "out @ [\<lparr>timestamp = t + timestamp k, joint_positions = length h, duration = duration k\<rparr>]"
  have step: "add_pose_keyframes t (k # ks) (out, h) = add_pose_keyframes t ks (?o1, ?h1)"
    by (simp add: dict_copy_def alloc_def)
  from Cons [of ?o1 ?h1]
  have len: "length (snd (add_pose_keyframes t ks (?o1, ?h1))) = length ?h1 + length ks"
    and tk: "take (length ?h1) (snd (add_pose_keyframes t ks (?o1, ?h1))) = ?h1"
    by simp_all
  have "take (length h) (snd (add_pose_keyframes t ks (?o1, ?h1))) =
        take (length h) (take (length ?h1) (snd (add_pose_keyframes t ks (?o1, ?h1))))"
    by (simp add: min_def)
  also have "\<dots> = h" by (simp only: tk) simp
  finally show ?case unfolding step using len by simp
qed

lemma get_pose_lookup: "get_pose library_mapper w = Inr (lookup_pose w)"
  by (simp add: get_pose_library lookup_pose_def)

lemma lookup_pose_wf: "wf_pose (lookup_pose w)"
  using get_pose_wf [OF get_pose_lookup] .

lemma pose_duration_lookup:
  "pose_duration w = sum_list (map duration (keyframes (lookup_pose w)))"
  by (simp add: pose_duration_def engine_mapper get_pose_lookup)

lemma word_loop_step:
  "word_loop library_mapper i (w # rest) (out, t, p, h) =
     word_loop library_mapper (Suc i) rest
       (fst (add_pose_keyframes (step_time i t p w) (keyframes (lookup_pose w)) (out, h)),
        step_time i t p w + pose_duration w,
        w,
        snd (add_pose_keyframes (step_time i t p w) (keyframes (lookup_pose w)) (out, h)))"
  by (simp add: get_pose_lookup step_time_def pose_duration_lookup Let_def split: prod.split)

lemma step_time_ge: "t \<le> step_time i t p w"
  using transition_nonneg [of p w] by (simp add: step_time_def)

lemma word_loop_total:
  "\<exists>out' t' p' h'. word_loop library_mapper i ws (out, t, p, h) = Inr (out', t', p', h')"
proof (induction ws arbitrary: i out t p h)
  case Nil
  then show ?case by simp
next
  case (Cons w ws)
  show ?case unfolding word_loop_step by (rule Cons)
qed

lemma word_loop_time:
  assumes "word_loop library_mapper i ws (out, t, p, h) = Inr (out', t', p', h')"
  shows "t' = t + (if 0 < i \<and> ws \<noteq> []
                   then get_transition_duration library_mapper p (hd ws) else 0)
              + sum_list (transitions_used ws) + sum_list (map pose_duration ws)"
  using assms
proof (induction ws arbitrary: i out t p h)
  case Nil
  then show ?case by (simp add: transitions_used_def)
next
  case (Cons w ws)
  from Cons.prems have step:
    "word_loop library_mapper (Suc i) ws
       (fst (add_pose_keyframes (step_time i t p w) (keyframes (lookup_pose w)) (out, h)),
        step_time i t p w + pose_duration w, w,
        snd (add_pose_keyframes (step_time i t p w) (keyframes (lookup_pose w)) (out, h)))
     = Inr (out', t', p', h')"
    by (simp only: word_loop_step)
  have tu: "sum_list (transitions_used (w # ws)) =
        (if ws \<noteq> [] then get_transition_duration library_mapper w (hd ws) else 0)
        + sum_list (transitions_used ws)"
    by (cases ws) (simp_all add: transitions_used_def engine_mapper)
  from Cons.IH [OF step] show ?case
    by (simp add: tu step_time_def)
qed

lemma sorted_shift:
  fixes t :: rat
  assumes "sorted (map timestamp ks)"
  shows "sorted (map (\<lambda>k. t + timestamp k) ks)"
  using assms by (induction ks) auto

lemma add_pose_keyframes_sorted:
  assumes "sorted (map timestamp out)" and "\<forall>x \<in> set (map timestamp out). x \<le> t"
    and "t \<le> t1" and "wf_pose pose"
  shows "sorted (map timestamp (fst (add_pose_keyframes t1 (keyframes pose) (out, h)))) \<and>
         (\<forall>x \<in> set (map timestamp (fst (add_pose_keyframes t1 (keyframes pose) (out, h)))).
             x \<le> t1 + sum_list (map duration (keyframes pose)))"
proof -
  let ?ks = "keyframes pose"
  let ?d = "sum_list (map duration ?ks)"
  from \<open>wf_pose pose\<close> have srt: "sorted (map timestamp ?ks)"
    and bnd: "\<forall>k \<in> set ?ks. 0 \<le> timestamp k \<and> timestamp k \<le> ?d"
    by (simp_all add: wf_pose_def)
  have new_sorted: "sorted (map (\<lambda>k. t1 + timestamp k) ?ks)"
    using srt by (rule sorted_shift)
  have new_lower: "\<forall>y \<in> set (map (\<lambda>k. t1 + timestamp k) ?ks). t1 \<le> y"
    using bnd by auto
  have new_upper: "\<forall>y \<in> set (map (\<lambda>k. t1 + timestamp k) ?ks). y \<le> t1 + ?d"
    using bnd by auto
  have old_upper: "\<forall>x \<in> set (map timestamp out). x \<le> t1"
    using assms(2,3) by auto
  have cross: "\<forall>x \<in> set (map timestamp out). \<forall>y \<in> set (map (\<lambda>k. t1 + timestamp k) ?ks). x \<le> y"
    using old_upper new_lower by (meson order_trans)
  have d0: "?ks \<noteq> [] \<Longrightarrow> 0 \<le> ?d"
  proof -
    assume "?ks \<noteq> []"
    then obtain k where "k \<in> set ?ks" by (cases ?ks) auto
    with bnd show ?thesis by (meson order_trans)
  qed
  have old_upper': "\<forall>x \<in> set (map timestamp out). x \<le> t1 + ?d"
  proof (cases "?ks = []")
    case True
    with old_upper show ?thesis by simp
  next
    case False
    from d0 [OF False] old_upper show ?thesis by fastforce
  qed
  show ?thesis
    unfolding add_pose_keyframes_timestamps
    using assms(1) new_sorted cross old_upper' new_upper
    by (auto simp add: sorted_append)
qed

lemma word_loop_sorted:
  assumes "word_loop library_mapper i ws (out, t, p, h) = Inr (out', t', p', h')"
    and "sorted (map timestamp out)" and "\<forall>x \<in> set (map timestamp out). x \<le> t"
  shows "sorted (map timestamp out') \<and> (\<forall>x \<in> set (map timestamp out'). x \<le> t')"
  using assms
proof (induction ws arbitrary: i out t p h)
  case Nil
  then show ?case by simp
next
  case (Cons w ws)
  let ?t1 = "step_time i t p w"
  let ?r = "add_pose_keyframes ?t1 (keyframes (lookup_pose w)) (out, h)"
  from Cons.prems(1) have step:
    "word_loop library_mapper (Suc i) ws (fst ?r, ?t1 + pose_duration w, w, snd ?r)
     = Inr (out', t', p', h')"
    by (simp only: word_loop_step)
  have "sorted (map timestamp (fst ?r)) \<and>
        (\<forall>x \<in> set (map timestamp (fst ?r)). x \<le> ?t1 + pose_duration w)"
    unfolding pose_duration_lookup
    by (rule add_pose_keyframes_sorted [OF Cons.prems(2,3) step_time_ge lookup_pose_wf])
  then have "sorted (map timestamp (fst ?r))"
    and "\<forall>x \<in> set (map timestamp (fst ?r)). x \<le> ?t1 + pose_duration w"
    by blast+
  then show ?case by (rule Cons.IH [OF step])
qed

lemma word_loop_heap:
  assumes "word_loop library_mapper i ws (out, t, p, h) = Inr (out', t', p', h')"
  shows "length h \<le> length h' \<and> take (length h) h' = h \<and>
         map joint_positions out' = map joint_positions out @ [length h ..< length h']"
  using assms
proof (induction ws arbitrary: i out t p h)
  case Nil
  then show ?case by simp
next
  case (Cons w ws)
  let ?t1 = "step_time i t p w"
  let ?ks = "keyframes (lookup_pose w)"
  let ?r = "add_pose_keyframes ?t1 ?ks (out, h)"
  from Cons.prems have step:
    "word_loop library_mapper (Suc i) ws (fst ?r, ?t1 + pose_duration w, w, snd ?r)
     = Inr (out', t', p', h')"
    by (simp only: word_loop_step)
  from Cons.IH [OF step]
  have le: "length (snd ?r) \<le> length h'" and tk: "take (length (snd ?r)) h' = snd ?r"
    and ad: "map joint_positions out' = map joint_positions (fst ?r) @ [length (snd ?r) ..< length h']"
    by simp_all
  from add_pose_keyframes_heap [of ?t1 ?ks out h]
  have len1: "length (snd ?r) = length h + length ?ks" and tk1: "take (length h) (snd ?r) = h"
    by simp_all
  have "take (length h) h' = take (length h) (take (length (snd ?r)) h')"
    using len1 by (simp add: min_def)
  also have "\<dots> = h" by (simp only: tk tk1)
  finally have tk': "take (length h) h' = h" .
  have "[length h ..< length h'] = [length h ..< length (snd ?r)] @ [length (snd ?r) ..< length h']"
  proof -
    from le obtain m where m: "length h' = length (snd ?r) + m"
      using le_Suc_ex by blast
    have "length h \<le> length (snd ?r)" using len1 by simp
    then show ?thesis unfolding m by (rule upt_add_eq_append)
  qed
  with ad add_pose_keyframes_addresses [of ?t1 ?ks out h] len1
  have "map joint_positions out' = map joint_positions out @ [length h ..< length h']"
    by simp
  with le len1 tk' show ?case by simp
qed

lemma default_pose_lookup: "get_pose library_mapper ''DEFAULT'' = Inr default_pose"
  by (simp add: get_pose_library library_poses_eval default_pose_def
                upper_def char_upper_def char_of_eq_iff)

lemma generate_keyframe_sequence_loop:
  assumes "word_loop library_mapper 0 ws ([], 0, ''DEFAULT'', h) = Inr (out, t, p, h')"
  shows "generate_keyframe_sequence animation_engine h ws =
           Inr (out @ [\<lparr>timestamp = t + 1/2, joint_positions = 18, duration = 1/2\<rparr>], h')"
  using assms
  by (simp add: generate_keyframe_sequence_def engine_mapper default_pose_lookup
                default_pose_def mk_keyframe_def)







text \<open>
  C5: for the empty token sequence the timeline is exactly one key frame, at 0.5 seconds,
  whose joint positions are those of the first key frame of the DEFAULT pose (the same
  dictionary, which in the store of the library is the neutral pose); the store is left as
  it was.
\<close>

theorem empty_sequence_timeline:
  "\<exists>dflt k0 ks.
     get_pose (gloss_mapper animation_engine) ''DEFAULT'' = Inr dflt \<and>
     keyframes dflt = k0 # ks \<and>
     generate_keyframe_sequence animation_engine h [] =
       Inr ([\<lparr>timestamp = 1/2, joint_positions = joint_positions k0, duration = 1/2\<rparr>], h) \<and>
     library_heap ! joint_positions k0 =
       [(''head'', (0, 0, 0)), (''right_hand'', (3/10, 5/10, 0)),
        (''left_hand'', (- (3/10), 5/10, 0)), (''torso'', (0, 0, 0))]"
  by (simp add: generate_keyframe_sequence_def engine_mapper default_pose_lookup
                default_pose_def mk_keyframe_def library_heap_eval)

text \<open>
  C4: for every token sequence the builder returns a timeline, and its time stamps never
  decrease from one key frame to the next.
\<close>

theorem timeline_timestamps_sorted:
  "\<exists>kfs h'. generate_keyframe_sequence animation_engine h ws = Inr (kfs, h') \<and>
            sorted (map timestamp kfs)"
proof -
  obtain out t p h' where
    loop: "word_loop library_mapper 0 ws ([], 0, ''DEFAULT'', h) = Inr (out, t, p, h')"
    using word_loop_total by blast
  from word_loop_sorted [OF loop]
  have "sorted (map timestamp out)" and "\<forall>x \<in> set (map timestamp out). x \<le> t"
    by simp_all
  then have "sorted (map timestamp
      (out @ [\<lparr>timestamp = t + 1/2, joint_positions = 18, duration = 1/2\<rparr>]))"
    by (fastforce simp add: sorted_append)
  with generate_keyframe_sequence_loop [OF loop] show ?thesis by simp
qed


lemma lookup_pose_HELLO: "keyframes (lookup_pose ''HELLO'') =
    [mk_keyframe 0 0 (5/10), mk_keyframe (5/10) 1 (5/10), mk_keyframe 1 2 (3/10)]"
  by (simp add: lookup_pose_def library_poses_eval upper_def char_upper_def char_of_eq_iff)

lemma lookup_pose_YOU: "keyframes (lookup_pose ''YOU'') =
    [mk_keyframe 0 5 (6/10), mk_keyframe (6/10) 6 (4/10)]"
  by (simp add: lookup_pose_def library_poses_eval upper_def char_upper_def char_of_eq_iff)

lemma transition_HELLO_YOU: "get_transition_duration library_mapper ''HELLO'' ''YOU'' = 2/10"
  by (simp add: get_transition_duration_def library_mapper_fields
        initialize_transition_rules_def upper_def char_upper_def char_of_eq_iff)


lemma generate_keyframe_sequence_addresses:
  "\<exists>kfs h'. generate_keyframe_sequence animation_engine h ws = Inr (kfs, h') \<and>
             length h \<le> length h' \<and>
             map joint_positions kfs = [length h ..< length h'] @ [18]"
proof -
  obtain out t p h' where
    loop: "word_loop library_mapper 0 ws ([], 0, ''DEFAULT'', h) = Inr (out, t, p, h')"
    using word_loop_total by blast
  from word_loop_heap [OF loop] generate_keyframe_sequence_loop [OF loop] show ?thesis by simp
qed

lemma library_heap_length: "length library_heap = 19"
  by (simp add: library_heap_eval)

lemma keyframes_HELLO:
  "\<exists>h'. generate_keyframe_sequence animation_engine library_heap [''HELLO''] =
     Inr ([\<lparr>timestamp = 0, joint_positions = 19, duration = 1/2\<rparr>,
           \<lparr>timestamp = 1/2, joint_positions = 20, duration = 1/2\<rparr>,
           \<lparr>timestamp = 1, joint_positions = 21, duration = 3/10\<rparr>,
           \<lparr>timestamp = 18/10, joint_positions = 18, duration = 1/2\<rparr>], h')"
proof -
  have "\<exists>h'. word_loop library_mapper 0 [''HELLO''] ([], 0, ''DEFAULT'', library_heap) =
     Inr ([\<lparr>timestamp = 0, joint_positions = 19, duration = 1/2\<rparr>,
           \<lparr>timestamp = 1/2, joint_positions = 20, duration = 1/2\<rparr>,
           \<lparr>timestamp = 1, joint_positions = 21, duration = 3/10\<rparr>], 13/10, ''HELLO'', h')"
    by (simp add: get_pose_lookup lookup_pose_HELLO mk_keyframe_def dict_copy_def alloc_def
          library_heap_length Let_def)
  then obtain h' where
    "word_loop library_mapper 0 [''HELLO''] ([], 0, ''DEFAULT'', library_heap) =
     Inr ([\<lparr>timestamp = 0, joint_positions = 19, duration = 1/2\<rparr>,
           \<lparr>timestamp = 1/2, joint_positions = 20, duration = 1/2\<rparr>,
           \<lparr>timestamp = 1, joint_positions = 21, duration = 3/10\<rparr>], 13/10, ''HELLO'', h')"
    by blast
  from generate_keyframe_sequence_loop [OF this] show ?thesis by simp
qed

text \<open>
  C3: the key frames built for the tokens hold new dictionaries, at the addresses allocated
  during the call, but the rest key frame holds the address of the dictionary of the first
  key frame of the DEFAULT pose, which belongs to the library: for \<^verbatim>\<open>["HELLO"]\<close> on the store
  of the library (addresses 0 to 18) the four key frames hold 19, 20, 21 and 18.
\<close>

theorem rest_keyframe_shares_library_dictionary:
  "(\<exists>kfs h' dflt k0 ks.
      generate_keyframe_sequence animation_engine h ws = Inr (kfs, h') \<and>
      get_pose (gloss_mapper animation_engine) ''DEFAULT'' = Inr dflt \<and>
      keyframes dflt = k0 # ks \<and>
      kfs \<noteq> [] \<and>
      map joint_positions (butlast kfs) = [length h ..< length h'] \<and>
      joint_positions (last kfs) = joint_positions k0) \<and>
   (\<exists>kfs h' dflt k0 ks.
      generate_keyframe_sequence animation_engine library_heap [''HELLO''] = Inr (kfs, h') \<and>
      get_pose (gloss_mapper animation_engine) ''DEFAULT'' = Inr dflt \<and>
      keyframes dflt = k0 # ks \<and>
      joint_positions k0 = 18 \<and>
      length library_heap = 19 \<and>
      map joint_positions kfs = [19, 20, 21, 18])"
proof -
  obtain kfs h' where g: "generate_keyframe_sequence animation_engine h ws = Inr (kfs, h')"
    and a: "map joint_positions kfs = [length h ..< length h'] @ [18]"
    using generate_keyframe_sequence_addresses by blast
  from a have ne: "kfs \<noteq> []" by auto
  from a have "butlast (map joint_positions kfs) = [length h ..< length h']"
    by (simp add: butlast_append)
  then have "map joint_positions (butlast kfs) = [length h ..< length h']"
    by (simp add: map_butlast)
  moreover from a have "last (map joint_positions kfs) = 18" by simp
  with ne have "joint_positions (last kfs) = 18" by (simp add: last_map)
  ultimately have 1: "\<exists>kfs h' dflt k0 ks.
      generate_keyframe_sequence animation_engine h ws = Inr (kfs, h') \<and>
      get_pose (gloss_mapper animation_engine) ''DEFAULT'' = Inr dflt \<and>
      keyframes dflt = k0 # ks \<and>
      kfs \<noteq> [] \<and>
      map joint_positions (butlast kfs) = [length h ..< length h'] \<and>
      joint_positions (last kfs) = joint_positions k0"
    using g ne
    by (simp add: engine_mapper default_pose_lookup default_pose_def mk_keyframe_def)
  have 2: "\<exists>kfs h' dflt k0 ks.
      generate_keyframe_sequence animation_engine library_heap [''HELLO''] = Inr (kfs, h') \<and>
      get_pose (gloss_mapper animation_engine) ''DEFAULT'' = Inr dflt \<and>
      keyframes dflt = k0 # ks \<and>
      joint_positions k0 = 18 \<and>
      length library_heap = 19 \<and>
      map joint_positions kfs = [19, 20, 21, 18]"
    using keyframes_HELLO
    by (auto simp add: engine_mapper default_pose_lookup default_pose_def
          mk_keyframe_def library_heap_length)
  from 1 2 show ?thesis by blast
qed

lemma parse_gloss_empty: "parse_gloss [] = []"
  by (simp add: parse_gloss_def split_def)

lemma parse_gloss_HELLO_YOU: "parse_gloss ''HELLO YOU'' = [''HELLO'', ''YOU'']"
  by (simp add: parse_gloss_def split_def strip_def is_space_def)

lemma py_round2_half: "py_round2 (1/2) = 1/2"
  by (simp add: py_round2_def round_half_even_def)

lemma py_round2_28: "py_round2 (14/5) = 14/5"
  by (simp add: py_round2_def round_half_even_def)

lemma generate_animation_sequence_fields:
  assumes "generate_keyframe_sequence animation_engine h (parse_gloss g) = Inr (kfs, h')"
  shows "\<exists>d. generate_animation_sequence lib visual t0 t1 t2 animation_engine h g = Inr (d, h') \<and>
     map_of d ''total_duration_seconds'' = Some (JNum (py_round2 (sum_list (map duration kfs)))) \<and>
     map_of d ''video_data_base64'' =
       Some (JStr (generate_video_frames lib visual animation_engine h' kfs))"
  using assms by (simp add: generate_animation_sequence_def Let_def)

lemma video_metadata_duration:
  assumes "kfs \<noteq> []"
  shows "json_field (video_metadata visual self h kfs) ''duration'' =
           Some (JNum (timestamp (last kfs) + duration (last kfs)))"
  using assms by (simp add: video_metadata_def json_field_def Let_def)

lemma word_loop_durations:
  assumes "word_loop library_mapper i ws (out, t, p, h) = Inr (out', t', p', h')"
  shows "sum_list (map duration out') =
           sum_list (map duration out) + sum_list (map pose_duration ws)"
  using assms
proof (induction ws arbitrary: i out t p h)
  case Nil
  then show ?case by simp
next
  case (Cons w ws)
  let ?t1 = "step_time i t p w"
  let ?r = "add_pose_keyframes ?t1 (keyframes (lookup_pose w)) (out, h)"
  from Cons.prems have step:
    "word_loop library_mapper (Suc i) ws (fst ?r, ?t1 + pose_duration w, w, snd ?r)
     = Inr (out', t', p', h')"
    by (simp only: word_loop_step)
  from Cons.IH [OF step] show ?case
    by (simp add: add_pose_keyframes_durations pose_duration_lookup)
qed

lemma timeline_durations:
  "\<exists>kfs h'. generate_keyframe_sequence animation_engine h ws = Inr (kfs, h') \<and>
     kfs \<noteq> [] \<and>
     sum_list (map duration kfs) = sum_list (map pose_duration ws) + 1/2 \<and>
     timestamp (last kfs) + duration (last kfs) =
       sum_list (transitions_used ws) + sum_list (map pose_duration ws) + 1"
proof -
  obtain out t p h' where
    loop: "word_loop library_mapper 0 ws ([], 0, ''DEFAULT'', h) = Inr (out, t, p, h')"
    using word_loop_total by blast
  from word_loop_time [OF loop]
  have t: "t = sum_list (transitions_used ws) + sum_list (map pose_duration ws)" by simp
  from word_loop_durations [OF loop]
  have d: "sum_list (map duration out) = sum_list (map pose_duration ws)" by simp
  from generate_keyframe_sequence_loop [OF loop] t d show ?thesis by simp
qed

text \<open>
  C1: for every gloss \<^verbatim>\<open>total_duration_seconds\<close> is the rounded sum of the key-frame durations,
  that is of the durations of the poses plus 0.5: it leaves out the transitions and the half
  second before the rest key frame. The \<^verbatim>\<open>duration\<close> written into the blob of the same
  artifact is the last time stamp plus the last duration: the transitions plus the durations
  of the poses plus 1. For the empty gloss the artifact records 0.5 and its blob 1; for
  \<^verbatim>\<open>"HELLO YOU"\<close> it records 2.8 and its blob 3.5.
\<close>

theorem total_duration_leaves_out_transitions:
  "(\<exists>d h' kfs.
      generate_animation_sequence lib visual t0 t1 t2 animation_engine h g = Inr (d, h') \<and>
      map_of d ''total_duration_seconds'' =
        Some (JNum (py_round2 (sum_list (map pose_duration (parse_gloss g)) + 1/2))) \<and>
      map_of d ''video_data_base64'' =
        Some (JStr (generate_video_frames lib visual animation_engine h' kfs)) \<and>
      json_field (video_metadata visual animation_engine h' kfs) ''duration'' =
        Some (JNum (sum_list (transitions_used (parse_gloss g)) +
                    sum_list (map pose_duration (parse_gloss g)) + 1))) \<and>
   (\<exists>d h' kfs.
      generate_animation_sequence lib visual t0 t1 t2 animation_engine library_heap [] =
        Inr (d, h') \<and>
      map_of d ''total_duration_seconds'' = Some (JNum (1/2)) \<and>
      map_of d ''video_data_base64'' =
        Some (JStr (generate_video_frames lib visual animation_engine h' kfs)) \<and>
      json_field (video_metadata visual animation_engine h' kfs) ''duration'' = Some (JNum 1)) \<and>
   (\<exists>d h' kfs.
      generate_animation_sequence lib visual t0 t1 t2 animation_engine library_heap
        ''HELLO YOU'' = Inr (d, h') \<and>
      map_of d ''total_duration_seconds'' = Some (JNum (28/10)) \<and>
      map_of d ''video_data_base64'' =
        Some (JStr (generate_video_frames lib visual animation_engine h' kfs)) \<and>
      json_field (video_metadata visual animation_engine h' kfs) ''duration'' =
        Some (JNum (35/10)))"
proof -
  let ?P = "\<lambda>h g total dur. \<exists>d h' kfs.
      generate_animation_sequence lib visual t0 t1 t2 animation_engine h g = Inr (d, h') \<and>
      map_of d ''total_duration_seconds'' = Some (JNum total) \<and>
      map_of d ''video_data_base64'' =
        Some (JStr (generate_video_frames lib visual animation_engine h' kfs)) \<and>
      json_field (video_metadata visual animation_engine h' kfs) ''duration'' = Some (JNum dur)"
  have general: "?P h g (py_round2 (sum_list (map pose_duration (parse_gloss g)) + 1/2))
      (sum_list (transitions_used (parse_gloss g)) +
       sum_list (map pose_duration (parse_gloss g)) + 1)" for h g
  proof -
    obtain kfs h' where
      k: "generate_keyframe_sequence animation_engine h (parse_gloss g) = Inr (kfs, h')"
      and ne: "kfs \<noteq> []"
      and total: "sum_list (map duration kfs) = sum_list (map pose_duration (parse_gloss g)) + 1/2"
      and dur: "timestamp (last kfs) + duration (last kfs) =
         sum_list (transitions_used (parse_gloss g)) +
         sum_list (map pose_duration (parse_gloss g)) + 1"
      using timeline_durations [of h "parse_gloss g"] by blast
    from generate_animation_sequence_fields [OF k, of lib visual t0 t1 t2]
      video_metadata_duration [OF ne, of visual animation_engine h'] total dur
    show ?thesis by auto
  qed
  have sums0: "sum_list (map pose_duration []) = 0" "sum_list (transitions_used []) = 0"
    by (simp_all add: transitions_used_def)
  have sums2: "sum_list (map pose_duration [''HELLO'', ''YOU'']) = 23/10"
    "sum_list (transitions_used [''HELLO'', ''YOU'']) = 2/10"
    by (simp_all add: transitions_used_def engine_mapper transition_HELLO_YOU
          pose_duration_lookup lookup_pose_HELLO lookup_pose_YOU mk_keyframe_def)
  have 1: "?P library_heap [] (1/2) 1"
    using general [of library_heap "[]"]
    unfolding parse_gloss_empty sums0 by (simp add: py_round2_half)
  have 2: "?P library_heap ''HELLO YOU'' (28/10) (35/10)"
    using general [of library_heap "''HELLO YOU''"]
    unfolding parse_gloss_HELLO_YOU sums2 by (simp add: py_round2_28)
  from general [of h g] 1 2 show ?thesis by blast
qed

section \<open>Properties of the packaging\<close>

lemma unary_lib_round_trip:
  "b64decode unary_lib (b64encode unary_lib s) = Some s"
  "json_loads unary_lib (json_dumps unary_lib v) = Some v"
  by (simp_all add: unary_lib_def)

lemma decode_generate:
  assumes "\<forall>t. b64decode lib (b64encode lib t) = Some t"
    and "\<forall>v. json_loads lib (json_dumps lib v) = Some v"
  shows "decode_animation lib (JStr (generate_video_frames lib visual animation_engine h kfs)) =
           Some (map (\<lambda>(i, keyframe). frame_data visual h (length kfs) i keyframe)
                    (enumerate 0 kfs), JInt 30)"
proof -
  have m: "video_metadata visual animation_engine h kfs =
      JObj [(''format'', JStr ''isl_animation_data''),
            (''version'', JStr ''1.0''),
            (''frames'', JArr (map (\<lambda>(i, keyframe). frame_data visual h (length kfs) i keyframe)
                                (enumerate 0 kfs))),
            (''total_frames'', JInt (int (length kfs))),
            (''duration'', (if kfs \<noteq> []
                            then JNum (timestamp (last kfs) + duration (last kfs))
                            else JInt 0)),
            (''fps'', JInt 30),
            (''width'', JInt (video_width animation_engine)),
            (''height'', JInt (video_height animation_engine))]"
    by (simp add: video_metadata_def engine_fps Let_def)
  from assms show ?thesis
    unfolding decode_animation_def generate_video_frames_def m by (simp add: dict_get_def)
qed

text \<open>
  C7: for a library in which \<^verbatim>\<open>base64.b64decode\<close> inverts \<^verbatim>\<open>base64.b64encode\<close> and
  \<^verbatim>\<open>json.loads\<close> inverts \<^verbatim>\<open>json.dumps\<close>, the decoding of \<^verbatim>\<open>stream_animation\<close> applied to the
  blob that \<^verbatim>\<open>_generate_video_frames\<close> builds from a list of key frames returns one frame for
  each key frame, in order, the frame rate of the engine, and in each frame the joint
  positions of its key frame. A joint position is a tuple in the key frame and comes back as
  an array of the same three numbers.
\<close>

theorem packaged_frames_round_trip:
  assumes "\<forall>t. b64decode lib (b64encode lib t) = Some t"
    and "\<forall>v. json_loads lib (json_dumps lib v) = Some v"
  shows "\<exists>frames rate.
     decode_animation lib (JStr (generate_video_frames lib visual animation_engine h kfs)) =
       Some (frames, rate) \<and>
     length frames = length kfs \<and>
     json_field (video_metadata visual animation_engine h kfs) ''total_frames'' =
       Some (JInt (int (length kfs))) \<and>
     rate = JInt (fps animation_engine) \<and>
     (\<forall>i < length kfs.
        json_field (frames ! i) ''joint_positions'' =
          Some (joints_json (h ! joint_positions (kfs ! i))) \<and>
        json_field (frames ! i) ''frame_number'' = Some (JInt (int i)))"
proof -
  let ?frames = "map (\<lambda>(i, keyframe). frame_data visual h (length kfs) i keyframe)
                    (enumerate 0 kfs)"
  have "\<forall>i < length kfs.
        json_field (?frames ! i) ''joint_positions'' =
          Some (joints_json (h ! joint_positions (kfs ! i))) \<and>
        json_field (?frames ! i) ''frame_number'' = Some (JInt (int i))"
    by (simp add: nth_enumerate_eq frame_data_def json_field_def)
  moreover have "json_field (video_metadata visual animation_engine h kfs) ''total_frames'' =
       Some (JInt (int (length kfs)))"
    by (simp add: video_metadata_def json_field_def Let_def)
  ultimately show ?thesis
    using decode_generate [OF assms] by (simp add: engine_fps)
qed

theorem packaged_frames_round_trip_witness:
  "(\<forall>t. b64decode unary_lib (b64encode unary_lib t) = Some t) \<and>
   (\<forall>v. json_loads unary_lib (json_dumps unary_lib v) = Some v) \<and>
   (\<exists>frames.
      decode_animation unary_lib
        (JStr (generate_video_frames unary_lib no_visual animation_engine library_heap
           [\<lparr>timestamp = 0, joint_positions = 10, duration = 2/10\<rparr>,
            \<lparr>timestamp = 7/10, joint_positions = 18, duration = 1/2\<rparr>])) =
        Some (frames, JInt 30) \<and>
      length frames = 2 \<and>
      json_field (frames ! 0) ''joint_positions'' =
        Some (JObj [(''head'', JArr [JNum 0, JNum 0, JNum 0]),
                    (''neck'', JArr [JNum 0, JNum 0, JNum 0])]) \<and>
      json_field (frames ! 1) ''joint_positions'' =
        Some (JObj [(''head'', JArr [JNum 0, JNum 0, JNum 0]),
                    (''right_hand'', JArr [JNum (3/10), JNum (5/10), JNum 0]),
                    (''left_hand'', JArr [JNum (- (3/10)), JNum (5/10), JNum 0]),
                    (''torso'', JArr [JNum 0, JNum 0, JNum 0])]))"
proof -
  let ?kfs = "[\<lparr>timestamp = 0, joint_positions = 10, duration = 2/10\<rparr>,
               \<lparr>timestamp = 7/10, joint_positions = 18, duration = 1/2\<rparr>]"
  have b: "\<forall>t. b64decode unary_lib (b64encode unary_lib t) = Some t"
    by (simp add: unary_lib_round_trip)
  have j: "\<forall>v. json_loads unary_lib (json_dumps unary_lib v) = Some v"
    by (simp add: unary_lib_round_trip)
  from packaged_frames_round_trip [OF b j, of no_visual library_heap ?kfs]
  obtain frames rate where
    d: "decode_animation unary_lib
          (JStr (generate_video_frames unary_lib no_visual animation_engine library_heap ?kfs)) =
        Some (frames, rate)"
    and l: "length frames = length ?kfs" and r: "rate = JInt (fps animation_engine)"
    and f: "\<forall>i < length ?kfs.
        json_field (frames ! i) ''joint_positions'' =
          Some (joints_json (library_heap ! joint_positions (?kfs ! i))) \<and>
        json_field (frames ! i) ''frame_number'' = Some (JInt (int i))"
    by blast
  from f have f0: "json_field (frames ! 0) ''joint_positions'' =
          Some (joints_json (library_heap ! 10))"
    by auto
  from f have f1: "json_field (frames ! 1) ''joint_positions'' =
          Some (joints_json (library_heap ! 18))"
    by auto
  have h10: "joints_json (library_heap ! 10) =
     JObj [(''head'', JArr [JNum 0, JNum 0, JNum 0]), (''neck'', JArr [JNum 0, JNum 0, JNum 0])]"
    by (simp add: library_heap_eval joints_json_def)
  have h18: "joints_json (library_heap ! 18) =
     JObj [(''head'', JArr [JNum 0, JNum 0, JNum 0]),
                    (''right_hand'', JArr [JNum (3/10), JNum (5/10), JNum 0]),
                    (''left_hand'', JArr [JNum (- (3/10)), JNum (5/10), JNum 0]),
                    (''torso'', JArr [JNum 0, JNum 0, JNum 0])]"
    by (simp add: library_heap_eval joints_json_def)
  from d l r f0 f1 h10 h18 b j show ?thesis
    by (simp add: engine_fps)
qed

section \<open>Properties of the stream manager\<close>

lemma dict_keys_set: "dict_keys (dict_set d k v) = insert k (dict_keys d)"
proof (induction d)
  case Nil
  show ?case by (simp add: dict_keys_def)
next
  case (Cons a d)
  obtain k' v' where a: "a = (k', v')" by (cases a)
  from Cons show ?case unfolding a dict_keys_def by (cases "k' = k") auto
qed

lemma dict_keys_del: "dict_keys (dict_del d k) = dict_keys d - {k}"
  by (auto simp add: dict_keys_def dict_del_def)

lemma map_of_dict_keys: "map_of d k = None \<longleftrightarrow> k \<notin> dict_keys d"
  by (simp add: dict_keys_def map_of_eq_None_iff)

lemma disconnect_fields:
  "dict_keys (active_connections (disconnect s sid)) = dict_keys (active_connections s) - {sid}"
  "dict_keys (connection_metadata (disconnect s sid)) = dict_keys (connection_metadata s) - {sid}"
  "animation_cache (disconnect s sid) = animation_cache s"
  "wire (disconnect s sid) = wire s"
  by (auto simp add: disconnect_def Let_def dict_keys_del)

lemma disconnect_keys_agree: "keys_agree s \<Longrightarrow> keys_agree (disconnect s sid)"
  by (simp add: keys_agree_def disconnect_fields)

lemma connect_keys:
  assumes "connect accepted now s websocket sid = Inr s'"
  shows "dict_keys (active_connections s') = insert sid (dict_keys (active_connections s))"
    and "dict_keys (connection_metadata s') = insert sid (dict_keys (connection_metadata s))"
  using assms by (auto simp add: connect_def dict_keys_set split: if_splits)

lemma connect_keys_agree:
  "keys_agree s \<Longrightarrow> connect accepted now s websocket sid = Inr s' \<Longrightarrow> keys_agree s'"
  by (simp add: keys_agree_def connect_keys)

lemma store_keys_agree: "keys_agree s \<Longrightarrow> keys_agree (store_animation_data now s sid d)"
  by (simp add: keys_agree_def store_animation_data_def)

lemma cleanup_keys_agree:
  "keys_agree s \<Longrightarrow> cleanup_expired_streams now age s = Inr s' \<Longrightarrow> keys_agree s'"
  by (auto simp add: keys_agree_def cleanup_expired_streams_def split: sum.splits)

lemma send_animation_frame_keys_agree:
  assumes "keys_agree s"
  shows "keys_agree (snd (send_animation_frame e s sid frame))"
proof (cases "map_of (active_connections s) sid")
  case None
  with assms show ?thesis by (simp add: send_animation_frame_def)
next
  case (Some websocket)
  show ?thesis
  proof (cases "send_ok e (length (wire s))")
    case False
    have "keys_agree (s\<lparr>wire := wire s @ [Failed websocket frame]\<rparr>)"
      using assms by (simp add: keys_agree_def)
    then have "keys_agree (disconnect (s\<lparr>wire := wire s @ [Failed websocket frame]\<rparr>) sid)"
      by (rule disconnect_keys_agree)
    with Some False show ?thesis by (simp add: send_animation_frame_def Let_def)
  next
    case True
    show ?thesis
    proof (cases "map_of (connection_metadata s) sid")
      case None
      with Some True assms show ?thesis
        by (simp add: send_animation_frame_def Let_def keys_agree_def)
    next
      case (Some m)
      then have "sid \<in> dict_keys (connection_metadata s)"
        using map_of_dict_keys [of "connection_metadata s" sid] by simp
      then have "insert sid (dict_keys (connection_metadata s)) = dict_keys (connection_metadata s)"
        by auto
      with \<open>map_of (active_connections s) sid = Some websocket\<close> True Some assms show ?thesis
        by (simp add: send_animation_frame_def Let_def keys_agree_def dict_keys_set)
    qed
  qed
qed

lemma send_error_keys_agree: "keys_agree s \<Longrightarrow> keys_agree (send_error e s sid code msg)"
  by (simp add: send_error_def send_animation_frame_keys_agree)

lemma send_frames_keys_agree: "keys_agree s \<Longrightarrow> keys_agree (send_frames e s sid frames)"
proof (induction frames arbitrary: s)
  case Nil
  then show ?case by simp
next
  case (Cons frame rest)
  let ?r = "send_animation_frame e s sid (frame_message sid frame (clock e (length (wire s))))"
  from Cons.prems have k: "keys_agree (snd ?r)" by (rule send_animation_frame_keys_agree)
  show ?case
  proof (cases "fst ?r")
    case True
    with Cons.IH [OF k] show ?thesis by (simp add: split_beta)
  next
    case False
    with k show ?thesis by (simp add: split_beta)
  qed
qed

lemma stream_animation_keys_agree:
  assumes "keys_agree s"
  shows "keys_agree (stream_animation lib e s sid)"
proof (cases "map_of (animation_cache s) sid")
  case None
  with assms show ?thesis by (simp add: stream_animation_def send_error_keys_agree)
next
  case (Some ad)
  let ?r = "send_animation_frame e s sid (metadata_message sid ad (clock e (length (wire s))))"
  have k1: "keys_agree (snd ?r)" using assms by (rule send_animation_frame_keys_agree)
  have k2: "\<And>code msg. keys_agree (send_error e (snd ?r) sid code msg)"
    using k1 by (rule send_error_keys_agree)
  have k3: "\<And>frames m. keys_agree (snd (send_animation_frame e (send_frames e (snd ?r) sid frames) sid m))"
    by (rule send_animation_frame_keys_agree, rule send_frames_keys_agree, rule k1)
  from Some assms k1 k2 k3 show ?thesis
    by (simp add: stream_animation_def split_beta Let_def split: option.split)
qed

text \<open>
  C10: in every state that the operations of the manager reach, \<^verbatim>\<open>active_connections\<close> and
  \<^verbatim>\<open>connection_metadata\<close> have the same keys; \<^verbatim>\<open>connect\<close> adds the stream id to both,
  \<^verbatim>\<open>disconnect\<close> removes it from both, and \<^verbatim>\<open>send_animation_frame\<close> calls \<^verbatim>\<open>disconnect\<close> when
  the send fails.
\<close>

theorem connection_registries_share_keys:
  "(reachable s \<longrightarrow>
      dict_keys (active_connections s) = dict_keys (connection_metadata s)) \<and>
   (connect accepted now s websocket stream_id = Inr s' \<longrightarrow>
      dict_keys (active_connections s') = insert stream_id (dict_keys (active_connections s)) \<and>
      dict_keys (connection_metadata s') = insert stream_id (dict_keys (connection_metadata s))) \<and>
   dict_keys (active_connections (disconnect s stream_id)) =
     dict_keys (active_connections s) - {stream_id} \<and>
   dict_keys (connection_metadata (disconnect s stream_id)) =
     dict_keys (connection_metadata s) - {stream_id} \<and>
   (map_of (active_connections s) stream_id = Some websocket \<and> \<not> send_ok e (length (wire s)) \<longrightarrow>
      send_animation_frame e s stream_id frame =
        (False, disconnect (s\<lparr>wire := wire s @ [Failed websocket frame]\<rparr>) stream_id))"
proof -
  have "reachable s \<Longrightarrow> keys_agree s"
  proof (induction rule: reachable.induct)
    case init
    show ?case by (simp add: keys_agree_def new_AvatarStreamManager_def dict_keys_def)
  next
    case (connect s accepted now websocket stream_id s')
    then show ?case by (simp add: connect_keys_agree)
  next
    case (disconnect s stream_id)
    then show ?case by (simp add: disconnect_keys_agree)
  next
    case (store s now stream_id animation_data)
    then show ?case by (simp add: store_keys_agree)
  next
    case (send_frame s e stream_id frame)
    then show ?case by (simp add: send_animation_frame_keys_agree)
  next
    case (send_error s e stream_id error_code error_message)
    then show ?case by (simp add: send_error_keys_agree)
  next
    case (stream s lib e stream_id)
    then show ?case by (simp add: stream_animation_keys_agree)
  next
    case (cleanup s now max_age s')
    then show ?case by (simp add: cleanup_keys_agree)
  qed
  then have 1: "reachable s \<longrightarrow>
      dict_keys (active_connections s) = dict_keys (connection_metadata s)"
    by (simp add: keys_agree_def)
  have 2: "connect accepted now s websocket stream_id = Inr s' \<longrightarrow>
      dict_keys (active_connections s') = insert stream_id (dict_keys (active_connections s)) \<and>
      dict_keys (connection_metadata s') = insert stream_id (dict_keys (connection_metadata s))"
    using connect_keys by blast
  have 3: "map_of (active_connections s) stream_id = Some websocket \<and> \<not> send_ok e (length (wire s)) \<longrightarrow>
      send_animation_frame e s stream_id frame =
        (False, disconnect (s\<lparr>wire := wire s @ [Failed websocket frame]\<rparr>) stream_id)"
    by (simp add: send_animation_frame_def Let_def)
  from 1 2 3 show ?thesis by (simp add: disconnect_fields)
qed

lemma send_animation_frame_wire:
  "wire (snd (send_animation_frame e s sid frame)) =
     wire s @ (case map_of (active_connections s) sid of
                 None \<Rightarrow> []
               | Some websocket \<Rightarrow>
                   [(if send_ok e (length (wire s)) then Sent else Failed) websocket frame])"
  by (simp add: send_animation_frame_def Let_def disconnect_fields split: option.split)

lemma send_animation_frame_ok:
  assumes "map_of (active_connections s) sid = Some websocket" and "send_ok e (length (wire s))"
  shows "fst (send_animation_frame e s sid frame)"
    and "map_of (active_connections (snd (send_animation_frame e s sid frame))) sid = Some websocket"
    and "wire (snd (send_animation_frame e s sid frame)) = wire s @ [Sent websocket frame]"
  using assms by (simp_all add: send_animation_frame_def Let_def split: option.split)

lemma send_animation_frame_failed:
  assumes "map_of (active_connections s) sid = Some websocket" and "\<not> send_ok e (length (wire s))"
  shows "\<not> fst (send_animation_frame e s sid frame)"
    and "wire (snd (send_animation_frame e s sid frame)) = wire s @ [Failed websocket frame]"
  using assms by (simp_all add: send_animation_frame_def Let_def disconnect_fields)

text \<open>
  C8, as amended: when \<^verbatim>\<open>stream_animation\<close> is called for a stream id without cached artifact,
  and a connection is registered for the stream id, \<^verbatim>\<open>send_text\<close> is called exactly once, with
  an error frame whose code is \<^verbatim>\<open>ANIMATION_NOT_FOUND\<close>; when no connection is registered,
  nothing is sent.
\<close>

theorem play_without_artifact:
  assumes "map_of (animation_cache s) stream_id = None"
  shows "wire (stream_animation lib e s stream_id) =
           wire s @
           (case map_of (active_connections s) stream_id of
              None \<Rightarrow> []
            | Some websocket \<Rightarrow>
                [(if send_ok e (length (wire s)) then Sent else Failed) websocket
                   (error_frame stream_id ''ANIMATION_NOT_FOUND''
                      ''Animation data not available'' (clock e (length (wire s))))])"
  using assms by (simp add: stream_animation_def send_error_def send_animation_frame_wire)

lemma one_connection_connect:
  "connect True 0 new_AvatarStreamManager a_socket ''s1'' = Inr one_connection"
  by (simp add: connect_def new_AvatarStreamManager_def a_socket_def one_connection_def)

theorem play_without_artifact_witness:
  "connect True 0 new_AvatarStreamManager a_socket ''s1'' = Inr one_connection \<and>
   map_of (animation_cache one_connection) ''s1'' = None \<and>
   wire (stream_animation unary_lib reliable one_connection ''s1'') =
     [Sent a_socket
        (JObj [(''type'', JStr ''error''),
               (''stream_id'', JStr ''s1''),
               (''error'', JObj [(''code'', JStr ''ANIMATION_NOT_FOUND''),
                                 (''message'', JStr ''Animation data not available''),
                                 (''timestamp'', JNum 0)])])]"
proof -
  have c: "map_of (animation_cache one_connection) ''s1'' = None"
    by (simp add: one_connection_def)
  from play_without_artifact [OF c, of unary_lib reliable] c one_connection_connect
  show ?thesis by (simp add: one_connection_def reliable_def error_frame_def)
qed

text \<open>
  C8, as stated, fails: on the new manager, which has neither an artifact nor a connection for
  the stream id, \<^verbatim>\<open>stream_animation\<close> sends no frame at all.
\<close>

theorem play_without_artifact_or_connection:
  "map_of (animation_cache new_AvatarStreamManager) ''s1'' = None \<and>
   wire new_AvatarStreamManager = [] \<and>
   wire (stream_animation unary_lib reliable new_AvatarStreamManager ''s1'') = []"
  by (simp add: new_AvatarStreamManager_def stream_animation_def send_error_def
        send_animation_frame_def)

lemma send_animation_frame_ok_state:
  assumes "map_of (active_connections s) sid = Some websocket" and "send_ok e (length (wire s))"
  shows "active_connections (snd (send_animation_frame e s sid frame)) = active_connections s"
    and "animation_cache (snd (send_animation_frame e s sid frame)) = animation_cache s"
  using assms by (simp_all add: send_animation_frame_def Let_def split: option.split)

lemma send_animation_frame_failed_state:
  assumes "map_of (active_connections s) sid = Some websocket" and "\<not> send_ok e (length (wire s))"
  shows "snd (send_animation_frame e s sid frame) =
           disconnect (s\<lparr>wire := wire s @ [Failed websocket frame]\<rparr>) sid"
    and "sid \<notin> dict_keys (active_connections (snd (send_animation_frame e s sid frame)))"
    and "sid \<notin> dict_keys (connection_metadata (snd (send_animation_frame e s sid frame)))"
    and "animation_cache (snd (send_animation_frame e s sid frame)) = animation_cache s"
  using assms by (simp_all add: send_animation_frame_def Let_def disconnect_fields)

text \<open>
  C9, as amended: for a connected stream id whose cached artifact has no
  \<^verbatim>\<open>video_data_base64\<close>, or an empty one, \<^verbatim>\<open>stream_animation\<close> sends the
  \<^verbatim>\<open>animation_metadata\<close> frame. When that send succeeds it then sends exactly one error frame
  with code \<^verbatim>\<open>NO_ANIMATION_DATA\<close>. When that send fails, the stream is disconnected, that is,
  the manager returned is the one that \<^verbatim>\<open>disconnect\<close> leaves, and nothing more is sent. The
  stream id stays registered with its socket when both sends succeed, and is in neither
  registry of connections when one of them fails. No \<^verbatim>\<open>animation_frame\<close> and no
  \<^verbatim>\<open>animation_complete\<close> frame is sent in either case, and the artifact stays cached.
\<close>

theorem play_without_frames:
  assumes "map_of (animation_cache s) stream_id = Some animation_data"
    and "map_of (active_connections s) stream_id = Some websocket"
    and "map_of animation_data ''video_data_base64'' = None \<or>
         map_of animation_data ''video_data_base64'' = Some (JStr [])"
  shows "wire (stream_animation lib e s stream_id) =
           wire s @
           (if send_ok e (length (wire s))
            then [Sent websocket
                    (metadata_message stream_id animation_data (clock e (length (wire s)))),
                  (if send_ok e (Suc (length (wire s))) then Sent else Failed) websocket
                    (error_frame stream_id ''NO_ANIMATION_DATA''
                       ''No animation frames available'' (clock e (Suc (length (wire s)))))]
            else [Failed websocket
                    (metadata_message stream_id animation_data (clock e (length (wire s))))]) \<and>
         (\<not> send_ok e (length (wire s)) \<longrightarrow>
            stream_animation lib e s stream_id =
              disconnect
                (s\<lparr>wire := wire s @
                     [Failed websocket
                        (metadata_message stream_id animation_data (clock e (length (wire s))))]\<rparr>)
                stream_id) \<and>
         (if send_ok e (length (wire s)) \<and> send_ok e (Suc (length (wire s)))
          then map_of (active_connections (stream_animation lib e s stream_id)) stream_id =
                 Some websocket
          else stream_id \<notin> dict_keys (active_connections (stream_animation lib e s stream_id)) \<and>
               stream_id \<notin> dict_keys (connection_metadata (stream_animation lib e s stream_id))) \<and>
         animation_cache (stream_animation lib e s stream_id) = animation_cache s"
proof -
  let ?m = "metadata_message stream_id animation_data (clock e (length (wire s)))"
  let ?r = "send_animation_frame e s stream_id ?m"
  let ?err = "\<lambda>k. error_frame stream_id ''NO_ANIMATION_DATA'' ''No animation frames available''
                     (clock e k)"
  have conn: "stream_id \<in> dict_keys (active_connections s)"
    using assms(2) map_of_dict_keys [of "active_connections s" stream_id] by simp
  have falsy: "\<not> truthy (dict_get animation_data ''video_data_base64'' (JStr []))"
    using assms(3) by (auto simp add: dict_get_def)
  show ?thesis
  proof (cases "send_ok e (length (wire s))")
    case False
    have res: "stream_animation lib e s stream_id = snd ?r"
      using send_animation_frame_failed(1) [OF assms(2) False, of ?m] assms(1) conn
      by (simp add: stream_animation_def split_beta)
    from send_animation_frame_failed(2) [OF assms(2) False, of ?m]
      send_animation_frame_failed_state [OF assms(2) False, of ?m] False
    show ?thesis unfolding res by simp
  next
    case True
    note ok = send_animation_frame_ok [OF assms(2) True, of ?m]
    note st = send_animation_frame_ok_state [OF assms(2) True, of ?m]
    have len: "length (wire (snd ?r)) = Suc (length (wire s))"
      unfolding ok(3) by simp
    have res: "stream_animation lib e s stream_id =
                 snd (send_animation_frame e (snd ?r) stream_id (?err (Suc (length (wire s)))))"
      using ok(1) assms(1) conn falsy len
      by (simp add: stream_animation_def split_beta Let_def send_error_def)
    show ?thesis
    proof (cases "send_ok e (Suc (length (wire s)))")
      case good: True
      then have g: "send_ok e (length (wire (snd ?r)))" unfolding len .
      from send_animation_frame_ok [OF ok(2) g, of "?err (Suc (length (wire s)))"]
        send_animation_frame_ok_state [OF ok(2) g, of "?err (Suc (length (wire s)))"]
        True good st
      show ?thesis unfolding res ok(3) by simp
    next
      case bad: False
      then have b: "\<not> send_ok e (length (wire (snd ?r)))" unfolding len .
      from send_animation_frame_failed [OF ok(2) b, of "?err (Suc (length (wire s)))"]
        send_animation_frame_failed_state(2-4) [OF ok(2) b, of "?err (Suc (length (wire s)))"]
        True bad st
      show ?thesis unfolding res ok(3) by simp
    qed
  qed
qed

lemma one_fallback_fields:
  "map_of (animation_cache one_fallback) ''s1'' =
     Some (fallback_data ''HELLO'' ''failed'' 0 @ [(''cached_at'', JNum 0)])"
  "map_of (active_connections one_fallback) ''s1'' = Some a_socket"
  "wire one_fallback = []"
  "dict_keys (active_connections one_fallback) = {''s1''}"
  "dict_keys (connection_metadata one_fallback) = {''s1''}"
  by (simp_all add: one_fallback_def store_animation_data_def one_connection_def
        fallback_data_def dict_keys_def)

theorem play_without_frames_witness:
  "map_of (animation_cache one_fallback) ''s1'' =
     Some (fallback_data ''HELLO'' ''failed'' 0 @ [(''cached_at'', JNum 0)]) \<and>
   map_of (active_connections one_fallback) ''s1'' = Some a_socket \<and>
   map_of (fallback_data ''HELLO'' ''failed'' 0 @ [(''cached_at'', JNum 0)])
     ''video_data_base64'' = None \<and>
   send_ok reliable 0 \<and> send_ok reliable 1 \<and>
   wire (stream_animation unary_lib reliable one_fallback ''s1'') =
     [Sent a_socket
        (metadata_message ''s1'' (fallback_data ''HELLO'' ''failed'' 0 @ [(''cached_at'', JNum 0)]) 0),
      Sent a_socket
        (error_frame ''s1'' ''NO_ANIMATION_DATA'' ''No animation frames available'' 0)] \<and>
   map_of (active_connections (stream_animation unary_lib reliable one_fallback ''s1'')) ''s1'' =
     Some a_socket \<and>
   animation_cache (stream_animation unary_lib reliable one_fallback ''s1'') =
     animation_cache one_fallback"
proof -
  let ?d = "fallback_data ''HELLO'' ''failed'' 0 @ [(''cached_at'', JNum 0)]"
  have v: "map_of ?d ''video_data_base64'' = None" by (simp add: fallback_data_def)
  then have v': "map_of ?d ''video_data_base64'' = None \<or>
                 map_of ?d ''video_data_base64'' = Some (JStr [])" by simp
  from play_without_frames [OF one_fallback_fields(1,2) v', of unary_lib reliable]
    one_fallback_fields(1-3) v
  show ?thesis by (simp add: reliable_def)
qed

text \<open>
  C9, as stated, fails: when the transport raises at the \<^verbatim>\<open>animation_metadata\<close> frame, the
  stream is disconnected, it is removed from both registries of connections, and no error
  frame follows.
\<close>

theorem play_without_frames_transport_failure:
  "map_of (animation_cache one_fallback) ''s1'' =
     Some (fallback_data ''HELLO'' ''failed'' 0 @ [(''cached_at'', JNum 0)]) \<and>
   map_of (active_connections one_fallback) ''s1'' = Some a_socket \<and>
   map_of (fallback_data ''HELLO'' ''failed'' 0 @ [(''cached_at'', JNum 0)])
     ''video_data_base64'' = None \<and>
   wire (stream_animation unary_lib unreliable one_fallback ''s1'') =
     [Failed a_socket
        (metadata_message ''s1'' (fallback_data ''HELLO'' ''failed'' 0 @ [(''cached_at'', JNum 0)]) 0)] \<and>
   dict_keys (active_connections one_fallback) = {''s1''} \<and>
   dict_keys (connection_metadata one_fallback) = {''s1''} \<and>
   dict_keys (active_connections (stream_animation unary_lib unreliable one_fallback ''s1'')) = {} \<and>
   dict_keys (connection_metadata (stream_animation unary_lib unreliable one_fallback ''s1'')) = {}"
proof -
  let ?d = "fallback_data ''HELLO'' ''failed'' 0 @ [(''cached_at'', JNum 0)]"
  let ?m = "metadata_message ''s1'' ?d 0"
  have v: "map_of ?d ''video_data_base64'' = None" by (simp add: fallback_data_def)
  have k: "''s1'' \<in> dict_keys (active_connections one_fallback)"
    by (simp add: one_fallback_fields(4))
  have f: "\<not> send_ok unreliable (length (wire one_fallback))" by (simp add: unreliable_def)
  have res: "stream_animation unary_lib unreliable one_fallback ''s1'' =
               snd (send_animation_frame unreliable one_fallback ''s1'' ?m)"
    using send_animation_frame_failed(1) [OF one_fallback_fields(2) f, of ?m]
      one_fallback_fields(1,3) k
    by (simp add: stream_animation_def split_beta unreliable_def)
  have st: "snd (send_animation_frame unreliable one_fallback ''s1'' ?m) =
              disconnect (one_fallback\<lparr>wire := wire one_fallback @ [Failed a_socket ?m]\<rparr>) ''s1''"
    using one_fallback_fields(2) f by (simp add: send_animation_frame_def Let_def)
  have w: "wire (stream_animation unary_lib unreliable one_fallback ''s1'') = [Failed a_socket ?m]"
    unfolding res st by (simp add: disconnect_fields one_fallback_fields(3))
  have d: "dict_keys (active_connections (stream_animation unary_lib unreliable one_fallback ''s1'')) = {}"
    "dict_keys (connection_metadata (stream_animation unary_lib unreliable one_fallback ''s1'')) = {}"
    unfolding res st by (simp_all add: disconnect_fields one_fallback_fields(4,5))
  from one_fallback_fields v w d show ?thesis by simp
qed

theorem connection_registries_share_keys_witness:
  "reachable one_connection \<and>
   connect True 0 new_AvatarStreamManager a_socket ''s1'' = Inr one_connection \<and>
   dict_keys (active_connections one_connection) = {''s1''} \<and>
   dict_keys (connection_metadata one_connection) = {''s1''} \<and>
   map_of (active_connections one_connection) ''s1'' = Some a_socket \<and>
   \<not> send_ok unreliable (length (wire one_connection)) \<and>
   dict_keys (active_connections (snd (send_animation_frame unreliable one_connection ''s1'' JNull))) = {} \<and>
   dict_keys (connection_metadata (snd (send_animation_frame unreliable one_connection ''s1'' JNull))) = {}"
proof -
  have r: "reachable one_connection"
    using reachable.connect [OF reachable.init one_connection_connect] .
  have m: "map_of (active_connections one_connection) ''s1'' = Some a_socket"
    by (simp add: one_connection_def)
  have f: "\<not> send_ok unreliable (length (wire one_connection))"
    by (simp add: unreliable_def)
  have e: "dict_keys (active_connections new_AvatarStreamManager) = {}"
    "dict_keys (connection_metadata new_AvatarStreamManager) = {}"
    by (simp_all add: new_AvatarStreamManager_def dict_keys_def)
  note t1 = connection_registries_share_keys
    [of new_AvatarStreamManager True 0 a_socket "''s1''" one_connection unreliable JNull]
  from t1 one_connection_connect e
  have k: "dict_keys (active_connections one_connection) = {''s1''}"
    "dict_keys (connection_metadata one_connection) = {''s1''}"
    by simp_all
  let ?s = "one_connection\<lparr>wire := wire one_connection @ [Failed a_socket JNull]\<rparr>"
  note t2 = connection_registries_share_keys
    [of one_connection True 0 a_socket "''s1''" one_connection unreliable JNull]
  from t2 m f have s: "send_animation_frame unreliable one_connection ''s1'' JNull =
      (False, disconnect ?s ''s1'')"
    by blast
  note t3 = connection_registries_share_keys
    [of ?s True 0 a_socket "''s1''" one_connection unreliable JNull]
  from t3 k have d: "dict_keys (active_connections (disconnect ?s ''s1'')) = {}"
    "dict_keys (connection_metadata (disconnect ?s ''s1'')) = {}"
    by simp_all
  from r one_connection_connect k m f s d show ?thesis by simp
qed

end
